theory Spec2Isabelle
  imports Main "HOL-Library.Sublist"
begin

section \<open>Helm chart inflation generator\<close>

text \<open>
  A shallow embedding of \<^verbatim>\<open>plugin/builtin/helmchartinflationgenerator/HelmChartInflationGenerator.go\<close>.
  Strings and byte slices are \<^typ>\<open>string\<close>. The file system, the helm subprocess, the loader,
  the resource-map factory and the YAML libraries are collaborators of the plugin; they are
  passed in explicitly.
\<close>

subsection \<open>Errors\<close>

text \<open>
  Go errors as values. \<open>Errorf m\<close> is \<^verbatim>\<open>fmt.Errorf\<close> with the formatted message \<open>m\<close>;
  \<open>Errorf_w m e\<close> is \<^verbatim>\<open>fmt.Errorf\<close> whose format ends in \<^verbatim>\<open>%w\<close>, wrapping \<open>e\<close>;
  \<open>WrapPrefixf e m\<close> is \<^verbatim>\<open>errors.WrapPrefixf(e, m)\<close> on a non-nil \<open>e\<close>;
  \<open>Failure m\<close> is an error reported by a collaborator; \<open>Panic m\<close> is a run-time
  panic (a nil dereference, an index out of range).
\<close>

datatype error =
    Errorf string
  | Errorf_w string error
  | WrapPrefixf error string
  | Failure string
  | Panic string

subsection \<open>Standard library: path/filepath on a Unix target\<close>

definition Separator :: char where
  "Separator = CHR ''/''"

definition IsAbs :: "string \<Rightarrow> bool" where
  "IsAbs path = (case path of [] \<Rightarrow> False | c # _ \<Rightarrow> c = Separator)"

text \<open>
  The inner loop of the \<^verbatim>\<open>..\<close> case of \<^verbatim>\<open>filepath.Clean\<close>:
  \<^verbatim>\<open>for out.w > dotdot && !os.IsPathSeparator(out.index(out.w)) { out.w-- }\<close>.
\<close>

function back_loop :: "string \<Rightarrow> nat \<Rightarrow> nat \<Rightarrow> nat" where
  "back_loop buf dotdot w =
     (if w > dotdot \<and> buf ! w \<noteq> Separator then back_loop buf dotdot (w - 1) else w)"
  by pat_completeness auto
termination
  by (relation "measure (\<lambda>(buf, dotdot, w). w)") auto

declare back_loop.simps [simp del]

text \<open>
  The main loop of \<^verbatim>\<open>filepath.Clean\<close>. The first argument is \<^verbatim>\<open>rooted\<close>, the second the
  unread part \<^verbatim>\<open>path[r:]\<close>, the third the output buffer \<^verbatim>\<open>out\<close> (so \<^verbatim>\<open>out.w\<close> is its
  length), the fourth \<^verbatim>\<open>dotdot\<close>.
\<close>

function clean_loop :: "bool \<Rightarrow> string \<Rightarrow> string \<Rightarrow> nat \<Rightarrow> string" where
  "clean_loop rooted [] out dotdot = out"
| "clean_loop rooted (c # rest) out dotdot =
     (if c = Separator then clean_loop rooted rest out dotdot
      else if c = CHR ''.'' \<and> (rest = [] \<or> hd rest = Separator)
        then clean_loop rooted rest out dotdot
      else if c = CHR ''.'' \<and> hd rest = CHR ''.'' \<and> (tl rest = [] \<or> hd (tl rest) = Separator)
        then (if length out > dotdot
                then clean_loop rooted (tl rest)
                       (take (back_loop out dotdot (length out - 1)) out) dotdot
              else if \<not> rooted
                then clean_loop rooted (tl rest)
                       ((if length out > 0 then out @ [Separator] else out) @ ''..'')
                       (length ((if length out > 0 then out @ [Separator] else out) @ ''..''))
              else clean_loop rooted (tl rest) out dotdot)
      else clean_loop rooted (dropWhile (\<lambda>x. x \<noteq> Separator) (c # rest))
             ((if rooted \<and> length out \<noteq> 1 \<or> \<not> rooted \<and> length out \<noteq> 0
               then out @ [Separator] else out)
              @ takeWhile (\<lambda>x. x \<noteq> Separator) (c # rest))
             dotdot)"
  by pat_completeness auto
termination
proof (relation "measure (\<lambda>(rooted, path, out, dotdot). length path)", goal_cases)
  case 1
  show ?case by simp
next
  case (2 rooted c rest out dotdot)
  then show ?case by simp
next
  case (3 rooted c rest out dotdot)
  then show ?case by simp
next
  case (4 rooted c rest out dotdot)
  then show ?case by (cases rest) auto
next
  case (5 rooted c rest out dotdot)
  then show ?case by (cases rest) auto
next
  case (6 rooted c rest out dotdot)
  then show ?case by (cases rest) auto
next
  case (7 rooted c rest out dotdot)
  have "length (dropWhile (\<lambda>x. x \<noteq> Separator) rest) \<le> length rest"
    by (rule length_dropWhile_le)
  with 7 show ?case by simp
qed

definition Clean :: "string \<Rightarrow> string" where
  "Clean path =
     (if path = [] then ''.''
      else let rooted = (hd path = Separator);
               out = (if rooted then clean_loop True (tl path) [Separator] 1
                      else clean_loop False path [] 0)
           in if out = [] then ''.'' else out)"

text \<open>\<^verbatim>\<open>strings.Join(elems, sep)\<close>.\<close>

fun strings_Join :: "string list \<Rightarrow> string \<Rightarrow> string" where
  "strings_Join [] sep = []"
| "strings_Join [e] sep = e"
| "strings_Join (e # es) sep = e @ sep @ strings_Join es sep"

text \<open>
  \<^verbatim>\<open>filepath.Join\<close>: leading empty elements are skipped, the rest is joined with the
  separator and cleaned; with no non-empty element the result is empty.
\<close>

fun Join :: "string list \<Rightarrow> string" where
  "Join [] = []"
| "Join (e # es) = (if e \<noteq> [] then Clean (strings_Join (e # es) [Separator]) else Join es)"

declare Join.simps [simp del]

subsection \<open>Standard library: strings and regexp\<close>

definition HasPrefix :: "string \<Rightarrow> string \<Rightarrow> bool" where
  "HasPrefix s pre = prefix pre s"

definition TrimSuffix :: "string \<Rightarrow> string \<Rightarrow> string" where
  "TrimSuffix s suf = (if suffix suf s then take (length s - length suf) s else s)"

text \<open>\<^verbatim>\<open>strings.Split(s, sep)\<close> for a separator of one character.\<close>

fun strings_Split :: "string \<Rightarrow> char \<Rightarrow> string list" where
  "strings_Split [] sep = [[]]"
| "strings_Split (c # cs) sep =
     (if c = sep then [] # strings_Split cs sep
      else (case strings_Split cs sep of
              [] \<Rightarrow> [[c]]
            | x # xs \<Rightarrow> (c # x) # xs))"

definition isDigit :: "char \<Rightarrow> bool" where
  "isDigit c = (c \<in> set ''0123456789'')"

text \<open>
  The regular expression \<^verbatim>\<open>v?\d+(\.\d+)+\<close> of \<^verbatim>\<open>checkHelmVersion\<close>, matched the way
  \<^verbatim>\<open>regexp.FindString\<close> does: the leftmost match, each repetition greedy.
  \<open>match_groups\<close> is \<^verbatim>\<open>(\.\d+)*\<close>, \<open>match_number\<close> is \<^verbatim>\<open>\d+(\.\d+)+\<close> and
  \<open>match_at\<close> the whole expression, each anchored at the head of its argument and
  returning the text matched.
\<close>

function match_groups :: "string \<Rightarrow> string" where
  "match_groups s =
     (case s of
        [] \<Rightarrow> []
      | c # t \<Rightarrow>
          if c = CHR ''.'' \<and> takeWhile isDigit t \<noteq> []
          then c # takeWhile isDigit t @ match_groups (dropWhile isDigit t)
          else [])"
  by pat_completeness auto
termination
proof (relation "measure length", goal_cases)
  case 1
  show ?case by simp
next
  case (2 s c t)
  have "length (dropWhile isDigit t) \<le> length t"
    by (rule length_dropWhile_le)
  with 2 show ?case by simp
qed

declare match_groups.simps [simp del]

definition match_number :: "string \<Rightarrow> string option" where
  "match_number s =
     (if takeWhile isDigit s = [] then None
      else if match_groups (dropWhile isDigit s) = [] then None
      else Some (takeWhile isDigit s @ match_groups (dropWhile isDigit s)))"

definition match_at :: "string \<Rightarrow> string option" where
  "match_at s =
     (case (case s of
              [] \<Rightarrow> None
            | c # t \<Rightarrow> if c = CHR ''v'' then map_option ((#) c) (match_number t) else None) of
        Some m \<Rightarrow> Some m
      | None \<Rightarrow> match_number s)"

fun FindString :: "string \<Rightarrow> string" where
  "FindString [] = []"
| "FindString (c # t) =
     (case match_at (c # t) of
        Some m \<Rightarrow> m
      | None \<Rightarrow> FindString t)"

text \<open>
  Lines 365 to 380 of \<^verbatim>\<open>checkHelmVersion\<close>: what the version gate does with the output of
  the version probe.
\<close>

definition checkVersionString :: "string \<Rightarrow> error option" where
  "checkVersionString stdout =
     (let v = FindString stdout in
      if v = [] then Some (Errorf (''cannot find version string in '' @ stdout))
      else let v = (if hd v = CHR ''v'' then tl v else v) in
        (case strings_Split v (CHR ''.'') of
           [] \<Rightarrow> Some (Panic ''index out of range'')
         | majorVersion # _ \<Rightarrow>
             if majorVersion \<noteq> ''3''
             then Some (Errorf (''this plugin requires helm V3 but got v'' @ v))
             else None))"

subsection \<open>Data\<close>

text \<open>
  A values tree: what \<^verbatim>\<open>interface{}\<close> holds inside \<^verbatim>\<open>ValuesInline\<close> and what an
  \<^verbatim>\<open>RNode\<close> holds. A mapping is an association list; the first entry of a key is the one
  looked up.
\<close>

datatype yaml =
    is_ScalarNode: ScalarNode string
  | is_SequenceNode: SequenceNode "yaml list"
  | is_MappingNode: MappingNode "(string \<times> yaml) list"

text \<open>
  The receiver: the fields of \<^verbatim>\<open>types.HelmGlobals\<close> (\<open>ChartHome\<close>, \<open>ConfigHome\<close>) and of
  \<^verbatim>\<open>types.HelmChart\<close> that this file reads or writes, and \<open>tmpDir\<close>. The other fields
  of \<^verbatim>\<open>types.HelmChart\<close> are read only by \<^verbatim>\<open>AsHelmArgs\<close>, which is taken as a parameter.
  The field \<^verbatim>\<open>h\<close> is the environment below.
\<close>

record plugin =
  ChartHome :: string
  ConfigHome :: string
  Name :: string
  Version :: string
  Repo :: string
  ValuesFile :: string
  AdditionalValuesFiles :: "string list"
  ValuesInline :: "(string \<times> yaml) list"
  ValuesMerge :: string
  ApiVersions :: "string list"
  KubeVersion :: string
  Debug :: bool
  tmpDir :: string

text \<open>
  The decoded configuration payload: for each field of the receiver, the value the payload
  gives it, or \<open>None\<close> when the payload does not mention the field.
\<close>

record payload =
  pl_chartHome :: "string option"
  pl_configHome :: "string option"
  pl_name :: "string option"
  pl_version :: "string option"
  pl_repo :: "string option"
  pl_valuesFile :: "string option"
  pl_additionalValuesFiles :: "string list option"
  pl_valuesInline :: "(string \<times> yaml) list option"
  pl_valuesMerge :: "string option"
  pl_apiVersions :: "string list option"
  pl_kubeVersion :: "string option"
  pl_debug :: "bool option"

text \<open>\<^verbatim>\<open>h.GeneralConfig().HelmConfig\<close>.\<close>

record HelmConfig =
  hc_Enabled :: bool
  hc_Command :: string
  hc_ApiVersions :: "string list"
  hc_KubeVersion :: string
  hc_Debug :: bool

text \<open>
  The part of the machine the plugin acts on: the regular files with their content, the
  directories, and a log of the loads and of the subprocesses run so far.
\<close>

datatype event =
    is_Loaded: Loaded string
  | is_Ran: Ran string "string list" "string list"

record world =
  files :: "string \<rightharpoonup> string"
  dirs :: "string set"
  trace :: "event list"

text \<open>
  The collaborators. \<open>GeneralConfig\<close>, \<open>Root\<close>, \<open>Load\<close>, \<open>NewResMapFromBytes\<close> and
  \<open>NewResMapFromRNodeSlice\<close> are what \<^verbatim>\<open>p.h\<close> gives access to (the general
  configuration, the loader, the resource-map factory); \<open>ByteReader_Read\<close> is
  \<^verbatim>\<open>kio.ByteReader.Read\<close>; \<open>yaml_Decode\<close>, \<open>yaml_Marshal\<close> and \<open>kyaml_Parse\<close> are the YAML
  libraries; \<open>MkdirTemp\<close> names the directory \<^verbatim>\<open>os.MkdirTemp\<close> creates, or fails;
  \<open>WriteFile_error\<close> says whether \<^verbatim>\<open>os.WriteFile\<close> fails; \<open>exec_Run\<close> is the subprocess
  (command, arguments, environment), which may change the world and returns its standard
  output, its standard error and its exit error; \<open>AsHelmArgs\<close> is the method of
  \<^verbatim>\<open>types.HelmChart\<close> that builds the arguments of the template command.
\<close>

record ('rm, 'node) env =
  GeneralConfig :: "HelmConfig option"
  Root :: string
  Load :: "world \<Rightarrow> string \<Rightarrow> error + string"
  NewResMapFromBytes :: "string \<Rightarrow> error + 'rm"
  NewResMapFromRNodeSlice :: "'node list \<Rightarrow> error + 'rm"
  ByteReader_Read :: "string \<Rightarrow> error + 'node list"
  yaml_Decode :: "string \<Rightarrow> error + payload"
  yaml_Marshal :: "(string \<times> yaml) list \<Rightarrow> error + string"
  kyaml_Parse :: "string \<Rightarrow> error + yaml"
  MkdirTemp :: "world \<Rightarrow> error + string"
  WriteFile_error :: "world \<Rightarrow> string \<Rightarrow> error option"
  exec_Run :: "world \<Rightarrow> string \<Rightarrow> string list \<Rightarrow> string list \<Rightarrow>
               world \<times> string \<times> string \<times> error option"
  AsHelmArgs :: "plugin \<Rightarrow> string \<Rightarrow> string list"

definition valuesMergeOptionMerge :: string where
  "valuesMergeOptionMerge = ''merge''"

definition valuesMergeOptionOverride :: string where
  "valuesMergeOptionOverride = ''override''"

definition valuesMergeOptionReplace :: string where
  "valuesMergeOptionReplace = ''replace''"

definition legalMergeOptions :: "string list" where
  "legalMergeOptions =
     [valuesMergeOptionMerge, valuesMergeOptionOverride, valuesMergeOptionReplace]"

text \<open>
  Modelled from the spec: the constant \<^verbatim>\<open>types.HelmDefaultHome\<close>, declared outside this
  file; the spec gives the default chart home directory as \<^verbatim>\<open>charts\<close>.
\<close>

definition HelmDefaultHome :: string where
  "HelmDefaultHome = ''charts''"

subsection \<open>Operating system and libraries\<close>

text \<open>\<open>under d q\<close>: the path \<open>q\<close> is \<open>d\<close> or lies below it.\<close>

definition under :: "string \<Rightarrow> string \<Rightarrow> bool" where
  "under d q = (q = d \<or> prefix (d @ [Separator]) q)"

text \<open>\<^verbatim>\<open>os.Stat\<close>, reduced to \<^verbatim>\<open>IsDir\<close> of the result.\<close>

definition os_Stat :: "world \<Rightarrow> string \<Rightarrow> error + bool" where
  "os_Stat w path =
     (if path \<in> dirs w then Inr True
      else if files w path \<noteq> None then Inr False
      else Inl (Failure (''stat '' @ path @ '': no such file or directory'')))"

definition os_MkdirTemp :: "('rm, 'node) env \<Rightarrow> world \<Rightarrow> world \<times> (error + string)" where
  "os_MkdirTemp env w =
     (case MkdirTemp env w of
        Inl e \<Rightarrow> (w, Inl e)
      | Inr d \<Rightarrow> (w\<lparr>dirs := insert d (dirs w)\<rparr>, Inr d))"

definition os_WriteFile ::
  "('rm, 'node) env \<Rightarrow> world \<Rightarrow> string \<Rightarrow> string \<Rightarrow> world \<times> error option" where
  "os_WriteFile env w path b =
     (case WriteFile_error env w path of
        Some e \<Rightarrow> (w, Some e)
      | None \<Rightarrow> (w\<lparr>files := (files w)(path \<mapsto> b)\<rparr>, None))"

text \<open>\<^verbatim>\<open>os.RemoveAll\<close>: the path and everything below it is gone afterwards.\<close>

definition os_RemoveAll :: "world \<Rightarrow> string \<Rightarrow> world" where
  "os_RemoveAll w path =
     w\<lparr>files := (\<lambda>q. if under path q then None else files w q),
       dirs := {q \<in> dirs w. \<not> under path q}\<rparr>"

text \<open>\<^verbatim>\<open>p.h.Loader().Load(path)\<close>, logged.\<close>

definition Loader_Load ::
  "('rm, 'node) env \<Rightarrow> world \<Rightarrow> string \<Rightarrow> world \<times> (error + string)" where
  "Loader_Load env w path = (w\<lparr>trace := trace w @ [Loaded path]\<rparr>, Load env w path)"

text \<open>
  \<^verbatim>\<open>yaml.Unmarshal(config, p)\<close>: the payload is decoded, and every field it mentions
  overwrites the receiver's; a field it does not mention keeps its value. When the
  decoding fails the receiver is returned as it was.
\<close>

definition Unmarshal :: "payload \<Rightarrow> plugin \<Rightarrow> plugin" where
  "Unmarshal pl p =
     p\<lparr>ChartHome := (case pl_chartHome pl of Some v \<Rightarrow> v | None \<Rightarrow> ChartHome p),
       ConfigHome := (case pl_configHome pl of Some v \<Rightarrow> v | None \<Rightarrow> ConfigHome p),
       Name := (case pl_name pl of Some v \<Rightarrow> v | None \<Rightarrow> Name p),
       Version := (case pl_version pl of Some v \<Rightarrow> v | None \<Rightarrow> Version p),
       Repo := (case pl_repo pl of Some v \<Rightarrow> v | None \<Rightarrow> Repo p),
       ValuesFile := (case pl_valuesFile pl of Some v \<Rightarrow> v | None \<Rightarrow> ValuesFile p),
       AdditionalValuesFiles :=
         (case pl_additionalValuesFiles pl of Some v \<Rightarrow> v | None \<Rightarrow> AdditionalValuesFiles p),
       ValuesInline := (case pl_valuesInline pl of Some v \<Rightarrow> v | None \<Rightarrow> ValuesInline p),
       ValuesMerge := (case pl_valuesMerge pl of Some v \<Rightarrow> v | None \<Rightarrow> ValuesMerge p),
       ApiVersions := (case pl_apiVersions pl of Some v \<Rightarrow> v | None \<Rightarrow> ApiVersions p),
       KubeVersion := (case pl_kubeVersion pl of Some v \<Rightarrow> v | None \<Rightarrow> KubeVersion p),
       Debug := (case pl_debug pl of Some v \<Rightarrow> v | None \<Rightarrow> Debug p)\<rparr>"

definition yaml_Unmarshal :: "('rm, 'node) env \<Rightarrow> string \<Rightarrow> plugin \<Rightarrow> error + plugin" where
  "yaml_Unmarshal env config p =
     (case yaml_Decode env config of
        Inl e \<Rightarrow> Inl e
      | Inr pl \<Rightarrow> Inr (Unmarshal pl p))"

subsection \<open>The tree merge\<close>

text \<open>
  Modelled from the spec: \<^verbatim>\<open>merge2.Merge(src, dest, opts)\<close> of \<^verbatim>\<open>kyaml/yaml/merge2\<close>, which
  is not part of the file verified here. The source says of it that it "overrides values
  in dest with values from src"; the spec says that the merge is structural, that
  conflicting scalar leaves resolve by precedence, that map against map and sequence
  against sequence merge recursively, and that a type mismatch at a node resolves by
  precedence like a scalar conflict. The spec does not say how the elements of two
  sequences are paired: they are paired by position here.
\<close>

fun merge2_nodes :: "yaml \<Rightarrow> yaml \<Rightarrow> yaml"
  and merge2_elements :: "yaml list \<Rightarrow> yaml list \<Rightarrow> yaml list"
  and merge2_fields :: "(string \<times> yaml) list \<Rightarrow> (string \<times> yaml) list \<Rightarrow> (string \<times> yaml) list"
  where
  "merge2_nodes (MappingNode s) (MappingNode d) =
     MappingNode (merge2_fields s d @ filter (\<lambda>kv. map_of d (fst kv) = None) s)"
| "merge2_nodes (SequenceNode s) (SequenceNode d) = SequenceNode (merge2_elements s d)"
| "merge2_nodes src dest = src"
| "merge2_elements [] d = d"
| "merge2_elements (x # s) [] = x # s"
| "merge2_elements (x # s) (y # d) = merge2_nodes x y # merge2_elements s d"
| "merge2_fields s [] = []"
| "merge2_fields s ((k, dv) # d) =
     (k, case map_of s k of Some sv \<Rightarrow> merge2_nodes sv dv | None \<Rightarrow> dv) # merge2_fields s d"

definition merge2_Merge :: "yaml \<Rightarrow> yaml \<Rightarrow> error + yaml" where
  "merge2_Merge src dest = Inr (merge2_nodes src dest)"

text \<open>
  Modelled from the spec: \<^verbatim>\<open>kyaml.FromMap\<close> and \<^verbatim>\<open>RNode.Map\<close>, which are not part of the
  file verified here. The spec says that the inline payload is a nested key/value
  structure that is put into tree form, and that the in-memory values are replaced by the
  merged structure. A merged node that is not a mapping has no such structure; a nil node
  (\<open>None\<close>) gives the empty map.
\<close>

definition kyaml_FromMap :: "(string \<times> yaml) list \<Rightarrow> error + yaml" where
  "kyaml_FromMap m = Inr (MappingNode m)"

definition RNode_Map :: "yaml option \<Rightarrow> error + (string \<times> yaml) list" where
  "RNode_Map rn =
     (case rn of
        None \<Rightarrow> Inr []
      | Some (MappingNode m) \<Rightarrow> Inr m
      | Some _ \<Rightarrow> Inl (Failure ''cannot decode node into a map''))"

subsection \<open>The plugin\<close>

text \<open>
  Every method takes the collaborators, the world and the receiver, and returns the world
  and the receiver as it leaves them, with its results.
\<close>

definition establishTmpDir ::
  "('rm, 'node) env \<Rightarrow> world \<Rightarrow> plugin \<Rightarrow> world \<times> plugin \<times> error option" where
  "establishTmpDir env w p =
     (if tmpDir p \<noteq> [] then (w, p, None)
      else (case os_MkdirTemp env w of
              (w', Inl e) \<Rightarrow> (w', p\<lparr>tmpDir := []\<rparr>, Some e)
            | (w', Inr d) \<Rightarrow> (w', p\<lparr>tmpDir := d\<rparr>, None)))"

definition errIfIllegalValuesMerge :: "plugin \<Rightarrow> plugin \<times> error option" where
  "errIfIllegalValuesMerge p =
     (if ValuesMerge p = [] then (p\<lparr>ValuesMerge := valuesMergeOptionOverride\<rparr>, None)
      else if ValuesMerge p \<in> set legalMergeOptions then (p, None)
      else (p, Some (Errorf (''valuesMerge must be one of ['' @
                             strings_Join legalMergeOptions '' '' @ '']''))))"

definition absChartHome :: "('rm, 'node) env \<Rightarrow> plugin \<Rightarrow> string" where
  "absChartHome env p =
     (let chartHome = (if IsAbs (ChartHome p) then ChartHome p
                       else Join [Root env, ChartHome p])
      in if Version p \<noteq> [] then Join [chartHome, Name p @ ''-'' @ Version p]
         else chartHome)"

text \<open>
  The effective home directory: the local variable \<^verbatim>\<open>chartHome\<close> of \<^verbatim>\<open>absChartHome\<close>, as
  a function of its own.
\<close>

definition chartHome :: "('rm, 'node) env \<Rightarrow> plugin \<Rightarrow> string" where
  "chartHome env p =
     (if IsAbs (ChartHome p) then ChartHome p else Join [Root env, ChartHome p])"

text \<open>
  The loop of \<^verbatim>\<open>validateArgs\<close> over \<^verbatim>\<open>p.AdditionalValuesFiles\<close>: \<open>done\<close> holds the entries
  already rewritten, the next argument those still to visit. It returns the list as the
  loop leaves it.
\<close>

fun additionalValuesFiles_loop ::
  "('rm, 'node) env \<Rightarrow> world \<Rightarrow> string list \<Rightarrow> string list \<Rightarrow>
   world \<times> string list \<times> error option" where
  "additionalValuesFiles_loop env w done [] = (w, done, None)"
| "additionalValuesFiles_loop env w done (file # rest) =
     (case Loader_Load env w file of
        (w', Inl e) \<Rightarrow>
          (w', done @ file # rest,
           Some (WrapPrefixf e ''could not load additionalValuesFile''))
      | (w', Inr _) \<Rightarrow>
          additionalValuesFiles_loop env w' (done @ [Join [Root env, file]]) rest)"

definition validateArgs ::
  "('rm, 'node) env \<Rightarrow> world \<Rightarrow> plugin \<Rightarrow> world \<times> plugin \<times> error option" where
  "validateArgs env w p =
     (if Name p = [] then (w, p, Some (Errorf ''chart name cannot be empty''))
      else
        let p1 = (if ChartHome p = [] then p\<lparr>ChartHome := HelmDefaultHome\<rparr> else p);
            p2 = (if ValuesFile p1 = []
                  then p1\<lparr>ValuesFile := Join [absChartHome env p1, Name p1, ''values.yaml'']\<rparr>
                  else p1)
        in (case additionalValuesFiles_loop env w [] (AdditionalValuesFiles p2) of
              (w1, fs, Some e) \<Rightarrow> (w1, p2\<lparr>AdditionalValuesFiles := fs\<rparr>, Some e)
            | (w1, fs, None) \<Rightarrow>
                (case errIfIllegalValuesMerge (p2\<lparr>AdditionalValuesFiles := fs\<rparr>) of
                   (p3, Some e) \<Rightarrow> (w1, p3, Some e)
                 | (p3, None) \<Rightarrow>
                     if ConfigHome p3 = []
                     then (case establishTmpDir env w1 p3 of
                             (w2, p4, Some e) \<Rightarrow>
                               (w2, p4, Some (WrapPrefixf e
                                  ''unable to create tmp dir for HELM_CONFIG_HOME''))
                           | (w2, p4, None) \<Rightarrow>
                               (w2, p4\<lparr>ConfigHome := Join [tmpDir p4, ''helm'']\<rparr>, None))
                     else (w1, p3, None))))"

definition Config ::
  "('rm, 'node) env \<Rightarrow> world \<Rightarrow> string \<Rightarrow> plugin \<Rightarrow> world \<times> plugin \<times> error option" where
  "Config env w config p =
     (case GeneralConfig env of
        None \<Rightarrow> (w, p, Some (Errorf ''unable to access general config''))
      | Some hc \<Rightarrow>
          if \<not> hc_Enabled hc then (w, p, Some (Errorf ''must specify --enable-helm''))
          else if hc_Command hc = [] then (w, p, Some (Errorf ''must specify --helm-command''))
          else
            let p1 = (if hc_KubeVersion hc \<noteq> [] then p\<lparr>KubeVersion := hc_KubeVersion hc\<rparr>
                      else p);
                p2 = (if length (hc_ApiVersions hc) \<noteq> 0
                      then p1\<lparr>ApiVersions := hc_ApiVersions hc\<rparr> else p1);
                p3 = (if hc_Debug hc then p2\<lparr>Debug := hc_Debug hc\<rparr> else p2)
            in (case yaml_Unmarshal env config p3 of
                  Inl e \<Rightarrow> (w, p3, Some e)
                | Inr p4 \<Rightarrow> validateArgs env w p4))"

text \<open>
  \<^verbatim>\<open>runHelmCommand\<close>. The environment handed to the subprocess is the three variables set
  here (the ambient \<^verbatim>\<open>os.Environ()\<close> is left implicit). The subprocess may change
  the files and directories; the log is kept by the model, which appends the run to it.
  A nil general configuration panics.
\<close>

definition runHelmCommand ::
  "('rm, 'node) env \<Rightarrow> world \<Rightarrow> plugin \<Rightarrow> string list \<Rightarrow> world \<times> string \<times> error option" where
  "runHelmCommand env w p args =
     (case GeneralConfig env of
        None \<Rightarrow> (w, [], Some (Panic ''nil pointer dereference''))
      | Some hc \<Rightarrow>
          let helm_env = [''HELM_CONFIG_HOME='' @ ConfigHome p,
                          ''HELM_CACHE_HOME='' @ ConfigHome p @ ''/.cache'',
                          ''HELM_DATA_HOME='' @ ConfigHome p @ ''/.data''];
              helm = hc_Command hc
          in (case exec_Run env w helm args helm_env of
                (w_run, stdout, stderr, err) \<Rightarrow>
                  let w' = w_run\<lparr>trace := trace w @ [Ran helm args helm_env]\<rparr>;
                      errorOutput =
                        (if ''--debug'' \<in> set args
                         then '' Helm stack trace:'' @ [CHR 0x0A] @ stderr @ [CHR 0x0A] @
                              ''Helm template:'' @ [CHR 0x0A] @ stdout @ [CHR 0x0A]
                         else stderr)
                  in (w', stdout,
                      (case err of
                         None \<Rightarrow> None
                       | Some e \<Rightarrow>
                           Some (WrapPrefixf
                                   (Errorf_w
                                      (''unable to run: '' @ [CHR 0x27] @ helm @ '' '' @
                                       strings_Join args '' '' @ [CHR 0x27] @ '' with env=['' @
                                       strings_Join helm_env '' '' @ ''] (is '' @ [CHR 0x27] @
                                       helm @ [CHR 0x27] @ '' installed?): '') e)
                                   errorOutput)))))"

text \<open>
  \<^verbatim>\<open>replaceValuesInline\<close>. \<^verbatim>\<open>Copy\<close> is the identity on values. When the policy is
  neither \<^verbatim>\<open>override\<close> nor \<^verbatim>\<open>merge\<close> the switch leaves \<^verbatim>\<open>outValues\<close> nil.
\<close>

definition replaceValuesInline ::
  "('rm, 'node) env \<Rightarrow> world \<Rightarrow> plugin \<Rightarrow> world \<times> plugin \<times> error option" where
  "replaceValuesInline env w p =
     (case Loader_Load env w (ValuesFile p) of
        (w', Inl e) \<Rightarrow> (w', p, Some e)
      | (w', Inr pValues) \<Rightarrow>
          (case kyaml_Parse env pValues of
             Inl e \<Rightarrow> (w', p, Some (WrapPrefixf e ''could not parse values file into rnode''))
           | Inr chValues \<Rightarrow>
               (case kyaml_FromMap (ValuesInline p) of
                  Inl e \<Rightarrow>
                    (w', p, Some (WrapPrefixf e ''could not parse values inline into rnode''))
                | Inr inlineValues \<Rightarrow>
                    (case (if ValuesMerge p = valuesMergeOptionOverride
                           then map_sum id Some (merge2_Merge inlineValues chValues)
                           else if ValuesMerge p = valuesMergeOptionMerge
                           then map_sum id Some (merge2_Merge chValues inlineValues)
                           else Inr None) of
                       Inl e \<Rightarrow> (w', p, Some (WrapPrefixf e ''could not merge values''))
                     | Inr outValues \<Rightarrow>
                         (case RNode_Map outValues of
                            Inl e \<Rightarrow>
                              (w', p, Some (WrapPrefixf e
                                 ''could not parse merged values into map''))
                          | Inr mapValues \<Rightarrow>
                              (w', p\<lparr>ValuesInline := mapValues\<rparr>, None))))))"

definition writeValuesBytes ::
  "('rm, 'node) env \<Rightarrow> world \<Rightarrow> plugin \<Rightarrow> string \<Rightarrow>
   world \<times> plugin \<times> string \<times> error option" where
  "writeValuesBytes env w p b =
     (case establishTmpDir env w p of
        (w1, p1, Some e) \<Rightarrow>
          (w1, p1, [], Some (Errorf ''cannot create tmp dir to write helm values''))
      | (w1, p1, None) \<Rightarrow>
          let path = Join [tmpDir p1, Name p1 @ ''-kustomize-values.yaml'']
          in (case os_WriteFile env w1 path b of
                (w2, None) \<Rightarrow> (w2, p1, path, None)
              | (w2, Some e) \<Rightarrow>
                  (w2, p1, path, Some (WrapPrefixf e ''failed to write values file''))))"

definition createNewMergedValuesFile ::
  "('rm, 'node) env \<Rightarrow> world \<Rightarrow> plugin \<Rightarrow> world \<times> plugin \<times> string \<times> error option" where
  "createNewMergedValuesFile env w p =
     (case (if ValuesMerge p = valuesMergeOptionMerge \<or>
               ValuesMerge p = valuesMergeOptionOverride
            then replaceValuesInline env w p
            else (w, p, None)) of
        (w1, p1, Some e) \<Rightarrow> (w1, p1, [], Some e)
      | (w1, p1, None) \<Rightarrow>
          (case yaml_Marshal env (ValuesInline p1) of
             Inl e \<Rightarrow> (w1, p1, [], Some e)
           | Inr b \<Rightarrow> writeValuesBytes env w1 p1 b))"

definition copyValuesFile ::
  "('rm, 'node) env \<Rightarrow> world \<Rightarrow> plugin \<Rightarrow> world \<times> plugin \<times> string \<times> error option" where
  "copyValuesFile env w p =
     (case Loader_Load env w (ValuesFile p) of
        (w1, Inl e) \<Rightarrow> (w1, p, [], Some e)
      | (w1, Inr b) \<Rightarrow> writeValuesBytes env w1 p b)"

definition cleanup :: "world \<Rightarrow> plugin \<Rightarrow> world" where
  "cleanup w p = (if tmpDir p \<noteq> [] then os_RemoveAll w (tmpDir p) else w)"

definition pullCommand :: "('rm, 'node) env \<Rightarrow> plugin \<Rightarrow> string list" where
  "pullCommand env p =
     (let args = [''pull'', ''--untar'', ''--untardir'', absChartHome env p];
          args = (if HasPrefix (Repo p) ''oci://''
                  then args @ [TrimSuffix (Repo p) ''/'' @ ''/'' @ Name p]
                  else if Repo p \<noteq> []
                  then (args @ [''--repo'', Repo p]) @ [Name p]
                  else args @ [Name p])
      in if Version p \<noteq> [] then args @ [''--version'', Version p] else args)"

definition chartExistsLocally :: "('rm, 'node) env \<Rightarrow> world \<Rightarrow> plugin \<Rightarrow> string \<times> bool" where
  "chartExistsLocally env w p =
     (let path = Join [absChartHome env p, Name p]
      in (case os_Stat w path of
            Inl e \<Rightarrow> ([], False)
          | Inr isDir \<Rightarrow> (path, isDir)))"

text \<open>
  \<^verbatim>\<open>checkHelmVersion\<close>. The regular expression is a constant that compiles, so the error
  branch of \<^verbatim>\<open>regexp.Compile\<close> is never taken.
\<close>

definition checkHelmVersion ::
  "('rm, 'node) env \<Rightarrow> world \<Rightarrow> plugin \<Rightarrow> world \<times> error option" where
  "checkHelmVersion env w p =
     (case runHelmCommand env w p [''version'', ''-c'', ''--short''] of
        (w', stdout, Some e) \<Rightarrow> (w', Some e)
      | (w', stdout, None) \<Rightarrow> (w', checkVersionString stdout))"

text \<open>
  \<^verbatim>\<open>Generate\<close>, block by block. \<open>Generate_chart\<close> is lines 277 to 288 (the version gate,
  the local check and the pull), \<open>Generate_values\<close> lines 289 to 296 (the values file),
  \<open>Generate_parse\<close> lines 303 to 322 (the two-stage parse of the output).
  \<open>Generate_body\<close> runs them in order, with the template command of lines 297 to 301
  between the last two, and \<open>Generate\<close> adds the deferred \<^verbatim>\<open>cleanup\<close>, which runs on
  every return.
\<close>

definition Generate_chart ::
  "('rm, 'node) env \<Rightarrow> world \<Rightarrow> plugin \<Rightarrow> world \<times> error option" where
  "Generate_chart env w p =
     (case checkHelmVersion env w p of
        (w1, Some e) \<Rightarrow> (w1, Some e)
      | (w1, None) \<Rightarrow>
          (case chartExistsLocally env w1 p of
             (path, exists) \<Rightarrow>
               if \<not> exists
               then (if Repo p = []
                     then (w1, Some (Errorf (''no repo specified for pull, no chart found at '' @
                                             [CHR 0x27] @ path @ [CHR 0x27])))
                     else (case runHelmCommand env w1 p (pullCommand env p) of
                             (w2, out, Some e) \<Rightarrow> (w2, Some e)
                           | (w2, out, None) \<Rightarrow> (w2, None)))
               else (w1, None)))"

definition Generate_values ::
  "('rm, 'node) env \<Rightarrow> world \<Rightarrow> plugin \<Rightarrow> world \<times> plugin \<times> error option" where
  "Generate_values env w p =
     (case (if length (ValuesInline p) > 0 then createNewMergedValuesFile env w p
            else copyValuesFile env w p) of
        (w1, p1, path, err) \<Rightarrow> (w1, p1\<lparr>ValuesFile := path\<rparr>, err))"

definition Generate_parse :: "('rm, 'node) env \<Rightarrow> string \<Rightarrow> error + 'rm" where
  "Generate_parse env stdout =
     (case NewResMapFromBytes env stdout of
        Inr rm \<Rightarrow> Inr rm
      | Inl resMapErr \<Rightarrow>
          (case ByteReader_Read env stdout of
             Inl e \<Rightarrow> Inl (Errorf_w ''error reading helm output: '' e)
           | Inr nodes \<Rightarrow>
               if length nodes \<noteq> 0
               then (case NewResMapFromRNodeSlice env nodes of
                       Inl e \<Rightarrow>
                         Inl (Errorf_w ''could not parse rnode slice into resource map: '' e)
                     | Inr rm \<Rightarrow> Inr rm)
               else Inl (Errorf_w ''could not parse bytes into resource map: '' resMapErr)))"

definition Generate_body ::
  "('rm, 'node) env \<Rightarrow> world \<Rightarrow> plugin \<Rightarrow> world \<times> plugin \<times> (error + 'rm)" where
  "Generate_body env w p =
     (case Generate_chart env w p of
        (w1, Some e) \<Rightarrow> (w1, p, Inl e)
      | (w1, None) \<Rightarrow>
          (case Generate_values env w1 p of
             (w2, p2, Some e) \<Rightarrow> (w2, p2, Inl e)
           | (w2, p2, None) \<Rightarrow>
               (case runHelmCommand env w2 p2 (AsHelmArgs env p2 (absChartHome env p2)) of
                  (w3, stdout, Some e) \<Rightarrow> (w3, p2, Inl e)
                | (w3, stdout, None) \<Rightarrow> (w3, p2, Generate_parse env stdout))))"

definition Generate ::
  "('rm, 'node) env \<Rightarrow> world \<Rightarrow> plugin \<Rightarrow> world \<times> plugin \<times> (error + 'rm)" where
  "Generate env w p =
     (case Generate_body env w p of
        (w', p', r) \<Rightarrow> (cleanup w' p', p', r))"

subsection \<open>The language of version tokens\<close>

text \<open>
  The language of the regular expression, stated without reference to the matcher:
  \<open>digits\<close> is \<^verbatim>\<open>\d+\<close>, \<open>version_number\<close> is \<^verbatim>\<open>\d+(\.\d+)+\<close> and \<open>version_token\<close> is
  \<^verbatim>\<open>v?\d+(\.\d+)+\<close>. \<open>leftmost_token out pre t\<close>: the token \<open>t\<close> occurs in \<open>out\<close> after
  the prefix \<open>pre\<close>, and no token of \<open>out\<close> starts further left. \<open>major t\<close> is the
  text of a token up to its first dot, without the leading \<^verbatim>\<open>v\<close>.
\<close>

definition digits :: "string \<Rightarrow> bool" where
  "digits s = (s \<noteq> [] \<and> list_all isDigit s)"

definition version_number :: "string \<Rightarrow> bool" where
  "version_number t =
     (\<exists>d gs. digits d \<and> gs \<noteq> [] \<and> list_all digits gs \<and>
             t = d @ concat (map ((#) (CHR ''.'')) gs))"

definition version_token :: "string \<Rightarrow> bool" where
  "version_token t = (version_number t \<or> (\<exists>n. t = CHR ''v'' # n \<and> version_number n))"

definition leftmost_token :: "string \<Rightarrow> string \<Rightarrow> string \<Rightarrow> bool" where
  "leftmost_token out pre t =
     (version_token t \<and> prefix (pre @ t) out \<and>
      (\<forall>pre' t'. version_token t' \<and> prefix (pre' @ t') out \<longrightarrow> length pre \<le> length pre'))"

definition major :: "string \<Rightarrow> string" where
  "major t = takeWhile (\<lambda>c. c \<noteq> CHR ''.'') (if prefix ''v'' t then tl t else t)"

subsection \<open>A concrete setting\<close>

text \<open>
  A small concrete world and concrete collaborators, on which the definitions above can
  be run: a chart \<^verbatim>\<open>nginx\<close> below \<^verbatim>\<open>/work/charts\<close>, a helm that reports version 3.14.0
  and renders one document, a loader that reads the files of the world.
\<close>

definition KustomizePlugin :: plugin where
  "KustomizePlugin =
     \<lparr>ChartHome = [], ConfigHome = [], Name = [], Version = [], Repo = [],
      ValuesFile = [], AdditionalValuesFiles = [], ValuesInline = [], ValuesMerge = [],
      ApiVersions = [], KubeVersion = [], Debug = False, tmpDir = []\<rparr>"

definition example_plugin :: plugin where
  "example_plugin = KustomizePlugin\<lparr>Name := ''nginx''\<rparr>"

definition example_world :: world where
  "example_world =
     \<lparr>files = [''/work/charts/nginx/values.yaml'' \<mapsto> ''{replicas: 1, port: 80}'',
               ''/work/nested.yaml'' \<mapsto> ''{resources: {limits: 1}}''],
      dirs = {''/work'', ''/work/charts'', ''/work/charts/nginx''},
      trace = []\<rparr>"

definition empty_payload :: payload where
  "empty_payload =
     \<lparr>pl_chartHome = None, pl_configHome = None, pl_name = None, pl_version = None,
      pl_repo = None, pl_valuesFile = None, pl_additionalValuesFiles = None,
      pl_valuesInline = None, pl_valuesMerge = None, pl_apiVersions = None,
      pl_kubeVersion = None, pl_debug = None\<rparr>"

definition example_decode :: "string \<Rightarrow> error + payload" where
  "example_decode config =
     (if config = ''{name: nginx}''
        then Inr (empty_payload\<lparr>pl_name := Some ''nginx''\<rparr>)
      else if config = ''{name: nginx, kubeVersion: v1.20.0, apiVersions: [batch/v1], debug: false}''
        then Inr (empty_payload\<lparr>pl_name := Some ''nginx'', pl_kubeVersion := Some ''v1.20.0'',
                    pl_apiVersions := Some [''batch/v1''], pl_debug := Some False\<rparr>)
      else if config = ''{name: nginx, valuesMerge: append}''
        then Inr (empty_payload\<lparr>pl_name := Some ''nginx'', pl_valuesMerge := Some ''append''\<rparr>)
      else Inl (Failure ''cannot decode''))"

definition example_parse :: "string \<Rightarrow> error + yaml" where
  "example_parse b =
     (if b = ''{replicas: 1, port: 80}''
        then Inr (MappingNode [(''replicas'', ScalarNode ''1''), (''port'', ScalarNode ''80'')])
      else if b = ''{resources: {limits: 1}}''
        then Inr (MappingNode [(''resources'', MappingNode [(''limits'', ScalarNode ''1'')])])
      else Inl (Failure ''cannot parse''))"

definition example_marshal :: "(string \<times> yaml) list \<Rightarrow> error + string" where
  "example_marshal m =
     Inr (concat (map (\<lambda>kv. fst kv @ '': '' @
                         (case snd kv of
                            ScalarNode v \<Rightarrow> v
                          | SequenceNode _ \<Rightarrow> ''[..]''
                          | MappingNode _ \<Rightarrow> ''{..}'') @ '';'') m))"

definition example_output :: string where
  "example_output =
     ''NOTE: installed'' @ [CHR 0x0A] @ ''---'' @ [CHR 0x0A] @ ''kind: ConfigMap''"

definition example_env :: "(string list, string) env" where
  "example_env =
     \<lparr>GeneralConfig = Some \<lparr>hc_Enabled = True, hc_Command = ''helm'', hc_ApiVersions = [],
                             hc_KubeVersion = [], hc_Debug = False\<rparr>,
      Root = ''/work'',
      Load = (\<lambda>w path. case files w path of
                           None \<Rightarrow> Inl (Failure ''no such file'')
                         | Some b \<Rightarrow> Inr b),
      NewResMapFromBytes =
        (\<lambda>b. if prefix ''kind:'' b then Inr [b] else Inl (Failure ''not a resource'')),
      NewResMapFromRNodeSlice = (\<lambda>nodes. Inr nodes),
      ByteReader_Read =
        (\<lambda>b. Inr (if b = example_output then [''kind: ConfigMap''] else [])),
      yaml_Decode = example_decode,
      yaml_Marshal = example_marshal,
      kyaml_Parse = example_parse,
      MkdirTemp = (\<lambda>w. Inr ''/tmp/kustomize-helm-1''),
      WriteFile_error = (\<lambda>w path. None),
      exec_Run =
        (\<lambda>w command args vars.
           if args = [''version'', ''-c'', ''--short''] then (w, ''v3.14.0'', [], None)
           else (w, ''kind: ConfigMap'', [], None)),
      AsHelmArgs =
        (\<lambda>p home. [''template'', ''--generate-name'', Join [home, Name p],
                    ''--values'', ValuesFile p])\<rparr>"

text \<open>The concrete collaborators with a helm whose every run prints \<open>out\<close>.\<close>

definition helm_reporting :: "string \<Rightarrow> (string list, string) env" where
  "helm_reporting out =
     example_env\<lparr>exec_Run := (\<lambda>w command args vars. (w, out, [], None))\<rparr>"

text \<open>
  The concrete collaborators with a helm that passes the version gate and renders \<open>out\<close>,
  and a factory that converts nodes with \<open>conv\<close>; the plugin and the world as
  \<open>validateArgs\<close> leaves them in the concrete setting; a world without the chart and a
  world where the chart path is a regular file; a conversion that fails.
\<close>

definition rendering ::
  "string \<Rightarrow> (string list \<Rightarrow> error + string list) \<Rightarrow> (string list, string) env" where
  "rendering out conv =
     example_env
       \<lparr>NewResMapFromRNodeSlice := conv,
        exec_Run :=
          (\<lambda>w command args vars.
             if args = [''version'', ''-c'', ''--short''] then (w, ''v3.14.0'', [], None)
             else (w, out, [], None))\<rparr>"

definition failing_conversion :: "string list \<Rightarrow> error + string list" where
  "failing_conversion nodes = Inl (Failure ''may not add resource with an already registered id'')"

definition ready_plugin :: plugin where
  "ready_plugin =
     example_plugin\<lparr>ChartHome := ''charts'', ValuesFile := ''/work/charts/nginx/values.yaml'',
       ValuesMerge := ''override'', tmpDir := ''/tmp/kustomize-helm-1'',
       ConfigHome := ''/tmp/kustomize-helm-1/helm''\<rparr>"

definition ready_world :: world where
  "ready_world = example_world\<lparr>dirs := insert ''/tmp/kustomize-helm-1'' (dirs example_world)\<rparr>"

definition no_chart_world :: world where
  "no_chart_world = ready_world\<lparr>dirs := {''/tmp/kustomize-helm-1''}\<rparr>"

definition chart_is_file_world :: world where
  "chart_is_file_world =
     no_chart_world\<lparr>files := [''/work/charts/nginx'' \<mapsto> ''not a directory'']\<rparr>"

definition helm_vars :: "string list" where
  "helm_vars = [''HELM_CONFIG_HOME=/tmp/kustomize-helm-1/helm'',
                ''HELM_CACHE_HOME=/tmp/kustomize-helm-1/helm/.cache'',
                ''HELM_DATA_HOME=/tmp/kustomize-helm-1/helm/.data'']"

text \<open>The world after the three steps of a run in the concrete setting, before the cleanup.\<close>

definition rendered_world :: "string \<Rightarrow> world" where
  "rendered_world b =
     ready_world
       \<lparr>trace := [Ran ''helm'' [''version'', ''-c'', ''--short''] helm_vars,
                  Loaded ''/work/charts/nginx/values.yaml'',
                  Ran ''helm'' [''template'', ''--generate-name'', ''/work/charts/nginx'',
                    ''--values'', ''/tmp/kustomize-helm-1/nginx-kustomize-values.yaml'']
                    helm_vars],
        files := (files ready_world)
                   (''/tmp/kustomize-helm-1/nginx-kustomize-values.yaml'' \<mapsto> b)\<rparr>"

text \<open>
  Further inputs of the concrete setting: inline values with a policy, inline values
  nested below a key that the base file \<^verbatim>\<open>/work/nested.yaml\<close> has too, a chart reference
  with a version and a world that holds its directories, and process-level settings that
  set the kube version, the API versions and the debug flag.
\<close>

definition inline_values :: "(string \<times> yaml) list" where
  "inline_values = [(''replicas'', ScalarNode ''3''), (''image'', ScalarNode ''nginx'')]"

definition inline_plugin :: "string \<Rightarrow> plugin" where
  "inline_plugin policy = ready_plugin\<lparr>ValuesInline := inline_values, ValuesMerge := policy\<rparr>"


definition versioned_plugin :: plugin where
  "versioned_plugin = ready_plugin\<lparr>Version := ''1.2.3''\<rparr>"

definition versioned_world :: world where
  "versioned_world =
     ready_world\<lparr>dirs := {''/tmp/kustomize-helm-1'', ''/work'', ''/work/charts'',
                          ''/work/charts/nginx-1.2.3'', ''/work/charts/nginx-1.2.3/nginx''}\<rparr>"

definition cli_env :: "(string list, string) env" where
  "cli_env =
     example_env\<lparr>GeneralConfig :=
       Some \<lparr>hc_Enabled = True, hc_Command = ''helm'', hc_ApiVersions = [''policy/v1''],
             hc_KubeVersion = ''v1.27.0'', hc_Debug = True\<rparr>\<rparr>"

definition cli_config :: string where
  "cli_config = ''{name: nginx, kubeVersion: v1.20.0, apiVersions: [batch/v1], debug: false}''"

section \<open>Properties\<close>

subsection \<open>Validation of the merge policy\<close>

lemma additionalValuesFiles_loop_runs:
  "filter is_Ran (trace (fst (additionalValuesFiles_loop env w done rest))) =
   filter is_Ran (trace w)"
proof (induction rest arbitrary: w "done")
  case Nil
  show ?case by simp
next
  case (Cons f rest)
  show ?case
  proof (cases "Load env w f")
    case (Inl e)
    then show ?thesis by (simp add: Loader_Load_def)
  next
    case (Inr b)
    then show ?thesis
      using Cons.IH [of "w\<lparr>trace := trace w @ [Loaded f]\<rparr>" "done @ [Join [Root env, f]]"]
      by (simp add: Loader_Load_def)
  qed
qed

lemma establishTmpDir_trace:
  "trace (fst (establishTmpDir env w p)) = trace w"
  by (simp add: establishTmpDir_def os_MkdirTemp_def split: sum.splits)

lemma errIfIllegalValuesMerge_illegal:
  "ValuesMerge p \<noteq> [] \<Longrightarrow> ValuesMerge p \<notin> set legalMergeOptions \<Longrightarrow>
   errIfIllegalValuesMerge p =
     (p, Some (Errorf ''valuesMerge must be one of [merge override replace]''))"
  by (simp add: errIfIllegalValuesMerge_def legalMergeOptions_def valuesMergeOptionMerge_def
      valuesMergeOptionOverride_def valuesMergeOptionReplace_def)

lemma validateArgs_unfold:
  assumes "Name p \<noteq> []"
    and "p1 = (if ChartHome p = [] then p\<lparr>ChartHome := HelmDefaultHome\<rparr> else p)"
    and "p2 = (if ValuesFile p1 = []
               then p1\<lparr>ValuesFile := Join [absChartHome env p1, Name p1, ''values.yaml'']\<rparr>
               else p1)"
  shows "validateArgs env w p =
     (case additionalValuesFiles_loop env w [] (AdditionalValuesFiles p2) of
              (w1, fs, Some e) \<Rightarrow> (w1, p2\<lparr>AdditionalValuesFiles := fs\<rparr>, Some e)
            | (w1, fs, None) \<Rightarrow>
                (case errIfIllegalValuesMerge (p2\<lparr>AdditionalValuesFiles := fs\<rparr>) of
                   (p3, Some e) \<Rightarrow> (w1, p3, Some e)
                 | (p3, None) \<Rightarrow>
                     if ConfigHome p3 = []
                     then (case establishTmpDir env w1 p3 of
                             (w2, p4, Some e) \<Rightarrow>
                               (w2, p4, Some (WrapPrefixf e
                                  ''unable to create tmp dir for HELM_CONFIG_HOME''))
                           | (w2, p4, None) \<Rightarrow>
                               (w2, p4\<lparr>ConfigHome := Join [tmpDir p4, ''helm'']\<rparr>, None))
                     else (w1, p3, None)))"
  unfolding validateArgs_def assms(2,3) Let_def
  using assms(1) by (simp only: if_False)

lemma validateArgs_runs:
  "filter is_Ran (trace (fst (validateArgs env w p))) = filter is_Ran (trace w)"
proof (cases "Name p = []")
  case True
  then show ?thesis by (simp add: validateArgs_def)
next
  case False
  define p1 where "p1 = (if ChartHome p = [] then p\<lparr>ChartHome := HelmDefaultHome\<rparr> else p)"
  define p2 where "p2 = (if ValuesFile p1 = []
                  then p1\<lparr>ValuesFile := Join [absChartHome env p1, Name p1, ''values.yaml'']\<rparr>
                  else p1)"
  note u = validateArgs_unfold [OF False p1_def p2_def, of w]
  obtain w1 fs r where l: "additionalValuesFiles_loop env w [] (AdditionalValuesFiles p2) = (w1, fs, r)"
    by (cases "additionalValuesFiles_loop env w [] (AdditionalValuesFiles p2)")
  have w1: "filter is_Ran (trace w1) = filter is_Ran (trace w)"
    using additionalValuesFiles_loop_runs [of env w "[]" "AdditionalValuesFiles p2"] l by simp
  obtain p3 r3 where e: "errIfIllegalValuesMerge (p2\<lparr>AdditionalValuesFiles := fs\<rparr>) = (p3, r3)"
    by (cases "errIfIllegalValuesMerge (p2\<lparr>AdditionalValuesFiles := fs\<rparr>)")
  obtain w2 p4 r4 where t: "establishTmpDir env w1 p3 = (w2, p4, r4)"
    by (cases "establishTmpDir env w1 p3")
  have w2: "trace w2 = trace w1"
    using establishTmpDir_trace [of env w1 p3] t by simp
  have "fst (validateArgs env w p) = w1 \<or> fst (validateArgs env w p) = w2"
    by (simp add: u l e t split: option.splits)
  with w1 w2 show ?thesis by auto
qed

lemma validateArgs_illegal:
  assumes "ValuesMerge p \<noteq> []" and "ValuesMerge p \<notin> set legalMergeOptions"
  shows "\<exists>e. snd (snd (validateArgs env w p)) = Some e"
proof (cases "Name p = []")
  case True
  then show ?thesis by (simp add: validateArgs_def)
next
  case False
  define p1 where "p1 = (if ChartHome p = [] then p\<lparr>ChartHome := HelmDefaultHome\<rparr> else p)"
  define p2 where "p2 = (if ValuesFile p1 = []
                  then p1\<lparr>ValuesFile := Join [absChartHome env p1, Name p1, ''values.yaml'']\<rparr>
                  else p1)"
  note u = validateArgs_unfold [OF False p1_def p2_def, of w]
  obtain w1 fs r where l: "additionalValuesFiles_loop env w [] (AdditionalValuesFiles p2) = (w1, fs, r)"
    by (cases "additionalValuesFiles_loop env w [] (AdditionalValuesFiles p2)")
  have "ValuesMerge (p2\<lparr>AdditionalValuesFiles := fs\<rparr>) = ValuesMerge p"
    by (simp add: p2_def p1_def)
  with assms have e: "errIfIllegalValuesMerge (p2\<lparr>AdditionalValuesFiles := fs\<rparr>) =
      (p2\<lparr>AdditionalValuesFiles := fs\<rparr>,
       Some (Errorf ''valuesMerge must be one of [merge override replace]''))"
    by (simp add: errIfIllegalValuesMerge_illegal)
  show ?thesis
    by (cases r) (simp_all add: u l e)
qed

lemma validateArgs_unset:
  assumes "ValuesMerge p = []" and "validateArgs env w p = (w', p', None)"
  shows "ValuesMerge p' = ''override''"
proof (cases "Name p = []")
  case True
  with assms(2) show ?thesis by (simp add: validateArgs_def)
next
  case False
  define p1 where "p1 = (if ChartHome p = [] then p\<lparr>ChartHome := HelmDefaultHome\<rparr> else p)"
  define p2 where "p2 = (if ValuesFile p1 = []
                  then p1\<lparr>ValuesFile := Join [absChartHome env p1, Name p1, ''values.yaml'']\<rparr>
                  else p1)"
  note u = validateArgs_unfold [OF False p1_def p2_def, of w]
  obtain w1 fs r where l: "additionalValuesFiles_loop env w [] (AdditionalValuesFiles p2) = (w1, fs, r)"
    by (cases "additionalValuesFiles_loop env w [] (AdditionalValuesFiles p2)")
  define p3 where "p3 = p2\<lparr>AdditionalValuesFiles := fs, ValuesMerge := ''override''\<rparr>"
  have "ValuesMerge (p2\<lparr>AdditionalValuesFiles := fs\<rparr>) = []"
    using assms(1) by (simp add: p2_def p1_def)
  then have e: "errIfIllegalValuesMerge (p2\<lparr>AdditionalValuesFiles := fs\<rparr>) = (p3, None)"
    by (simp add: errIfIllegalValuesMerge_def valuesMergeOptionOverride_def p3_def)
  obtain w2 p4 r4 where t: "establishTmpDir env w1 p3 = (w2, p4, r4)"
    by (cases "establishTmpDir env w1 p3")
  have p4: "ValuesMerge p4 = ValuesMerge p3"
    using t by (auto simp: establishTmpDir_def split: if_splits prod.splits sum.splits)
  have p3: "ValuesMerge p3 = ''override''"
    by (simp add: p3_def)
  from assms(2) p3 p4 show ?thesis
    by (cases r; cases r4) (auto simp: u l e t split: if_splits)
qed

lemma Config_unfold:
  assumes "GeneralConfig env = Some hc" and "hc_Enabled hc" and "hc_Command hc \<noteq> []"
    and "p1 = (if hc_KubeVersion hc \<noteq> [] then p\<lparr>KubeVersion := hc_KubeVersion hc\<rparr> else p)"
    and "p2 = (if length (hc_ApiVersions hc) \<noteq> 0
               then p1\<lparr>ApiVersions := hc_ApiVersions hc\<rparr> else p1)"
    and "p3 = (if hc_Debug hc then p2\<lparr>Debug := hc_Debug hc\<rparr> else p2)"
  shows "Config env w config p =
     (case yaml_Unmarshal env config p3 of
        Inl e \<Rightarrow> (w, p3, Some e)
      | Inr p4 \<Rightarrow> validateArgs env w p4)"
  unfolding Config_def assms(4,5,6) Let_def
  using assms(1,2,3) by (simp only: option.case if_False if_True not_True_eq_False)

lemma Config_runs:
  "filter is_Ran (trace (fst (Config env w config p))) = filter is_Ran (trace w)"
proof (cases "GeneralConfig env")
  case None
  then show ?thesis by (simp add: Config_def)
next
  case (Some hc)
  show ?thesis
  proof (cases "hc_Enabled hc \<and> hc_Command hc \<noteq> []")
    case False
    with Some show ?thesis by (auto simp: Config_def)
  next
    case True
    define p1 where "p1 = (if hc_KubeVersion hc \<noteq> [] then p\<lparr>KubeVersion := hc_KubeVersion hc\<rparr> else p)"
    define p2 where "p2 = (if length (hc_ApiVersions hc) \<noteq> 0
               then p1\<lparr>ApiVersions := hc_ApiVersions hc\<rparr> else p1)"
    define p3 where "p3 = (if hc_Debug hc then p2\<lparr>Debug := hc_Debug hc\<rparr> else p2)"
    from True have a: "hc_Enabled hc" and b: "hc_Command hc \<noteq> []" by simp_all
    show ?thesis
      unfolding Config_unfold [OF Some a b p1_def p2_def p3_def]
      by (cases "yaml_Unmarshal env config p3") (simp_all add: validateArgs_runs)
  qed
qed

lemma Config_illegal:
  assumes d: "yaml_Decode env config = Inr pl" and v: "pl_valuesMerge pl = Some v"
    and i: "v \<noteq> []" "v \<notin> set legalMergeOptions"
  shows "\<exists>e. snd (snd (Config env w config p)) = Some e"
proof (cases "GeneralConfig env")
  case None
  then show ?thesis by (simp add: Config_def)
next
  case (Some hc)
  show ?thesis
  proof (cases "hc_Enabled hc \<and> hc_Command hc \<noteq> []")
    case False
    with Some show ?thesis by (auto simp: Config_def)
  next
    case True
    define p1 where "p1 = (if hc_KubeVersion hc \<noteq> [] then p\<lparr>KubeVersion := hc_KubeVersion hc\<rparr> else p)"
    define p2 where "p2 = (if length (hc_ApiVersions hc) \<noteq> 0
               then p1\<lparr>ApiVersions := hc_ApiVersions hc\<rparr> else p1)"
    define p3 where "p3 = (if hc_Debug hc then p2\<lparr>Debug := hc_Debug hc\<rparr> else p2)"
    from True have a: "hc_Enabled hc" and b: "hc_Command hc \<noteq> []" by simp_all
    have "ValuesMerge (Unmarshal pl p3) = v"
      using v by (simp add: Unmarshal_def)
    with i have "\<exists>e. snd (snd (validateArgs env w (Unmarshal pl p3))) = Some e"
      by (simp add: validateArgs_illegal)
    then show ?thesis
      by (simp add: Config_unfold [OF Some a b p1_def p2_def p3_def] yaml_Unmarshal_def d)
  qed
qed

lemma Join_work_charts: "Join [''/work'', ''charts''] = ''/work/charts''"
  by (simp add: Join.simps Clean_def Separator_def)

lemma Join_values_yaml:
  "Join [''/work/charts'', ''nginx'', ''values.yaml''] = ''/work/charts/nginx/values.yaml''"
  by (simp add: Join.simps Clean_def Separator_def)

lemma Join_tmp_helm: "Join [''/tmp/kustomize-helm-1'', ''helm''] = ''/tmp/kustomize-helm-1/helm''"
  by (simp add: Join.simps Clean_def Separator_def)

lemma example_validateArgs:
  "validateArgs example_env example_world example_plugin =
     (example_world\<lparr>dirs := insert ''/tmp/kustomize-helm-1'' (dirs example_world)\<rparr>,
      example_plugin\<lparr>ChartHome := ''charts'', ValuesFile := ''/work/charts/nginx/values.yaml'',
        ValuesMerge := ''override'', tmpDir := ''/tmp/kustomize-helm-1'',
        ConfigHome := ''/tmp/kustomize-helm-1/helm''\<rparr>,
      None)"
  by (simp add: validateArgs_def example_env_def example_plugin_def KustomizePlugin_def
      example_world_def HelmDefaultHome_def absChartHome_def IsAbs_def
      Join_work_charts Join_values_yaml Join_tmp_helm
      Separator_def errIfIllegalValuesMerge_def valuesMergeOptionOverride_def
      establishTmpDir_def os_MkdirTemp_def del: Join.simps)

text \<open>
  Claim C4. Validation fails whenever the merge policy is set to a value other than
  \<^verbatim>\<open>merge\<close>, \<^verbatim>\<open>override\<close> and \<^verbatim>\<open>replace\<close>: the check itself fails, \<^verbatim>\<open>validateArgs\<close>
  fails, and \<^verbatim>\<open>Config\<close> fails when the payload sets such a policy; neither of them runs a
  subprocess. When the policy is unset the check sets it to \<^verbatim>\<open>override\<close> and returns no
  error, and a successful \<^verbatim>\<open>validateArgs\<close> leaves it at \<^verbatim>\<open>override\<close>.
\<close>

theorem values_merge_validation:
  "(ValuesMerge p \<noteq> [] \<and> ValuesMerge p \<notin> set legalMergeOptions \<longrightarrow>
      (\<exists>e. snd (errIfIllegalValuesMerge p) = Some e) \<and>
      (\<exists>e. snd (snd (validateArgs env w p)) = Some e) \<and>
      filter is_Ran (trace (fst (validateArgs env w p))) = filter is_Ran (trace w)) \<and>
   (yaml_Decode env config = Inr pl \<and> pl_valuesMerge pl = Some v \<and>
    v \<noteq> [] \<and> v \<notin> set legalMergeOptions \<longrightarrow>
      (\<exists>e. snd (snd (Config env w config q)) = Some e) \<and>
      filter is_Ran (trace (fst (Config env w config q))) = filter is_Ran (trace w)) \<and>
   (ValuesMerge p = [] \<longrightarrow>
      errIfIllegalValuesMerge p = (p\<lparr>ValuesMerge := ''override''\<rparr>, None) \<and>
      (\<forall>w' p'. validateArgs env w p = (w', p', None) \<longrightarrow> ValuesMerge p' = ''override''))"
proof (intro conjI impI allI)
  assume h: "ValuesMerge p \<noteq> [] \<and> ValuesMerge p \<notin> set legalMergeOptions"
  then show "\<exists>e. snd (errIfIllegalValuesMerge p) = Some e"
    by (simp add: errIfIllegalValuesMerge_illegal)
  from h show "\<exists>e. snd (snd (validateArgs env w p)) = Some e"
    by (simp add: validateArgs_illegal)
next
  show "filter is_Ran (trace (fst (validateArgs env w p))) = filter is_Ran (trace w)"
    by (rule validateArgs_runs)
next
  assume "yaml_Decode env config = Inr pl \<and> pl_valuesMerge pl = Some v \<and>
    v \<noteq> [] \<and> v \<notin> set legalMergeOptions"
  then show "\<exists>e. snd (snd (Config env w config q)) = Some e"
    using Config_illegal [of env config pl v w q] by simp
next
  show "filter is_Ran (trace (fst (Config env w config q))) = filter is_Ran (trace w)"
    by (rule Config_runs)
next
  assume "ValuesMerge p = []"
  then show "errIfIllegalValuesMerge p = (p\<lparr>ValuesMerge := ''override''\<rparr>, None)"
    by (simp add: errIfIllegalValuesMerge_def valuesMergeOptionOverride_def)
next
  fix w' p'
  assume "ValuesMerge p = []" and "validateArgs env w p = (w', p', None)"
  then show "ValuesMerge p' = ''override''"
    by (rule validateArgs_unset)
qed

theorem values_merge_validation_witness:
  "ValuesMerge (example_plugin\<lparr>ValuesMerge := ''append''\<rparr>) \<noteq> [] \<and>
   ValuesMerge (example_plugin\<lparr>ValuesMerge := ''append''\<rparr>) \<notin> set legalMergeOptions \<and>
   (\<exists>e. snd (snd (validateArgs example_env example_world
                     (example_plugin\<lparr>ValuesMerge := ''append''\<rparr>))) = Some e) \<and>
   yaml_Decode example_env ''{name: nginx, valuesMerge: append}'' =
     Inr (empty_payload\<lparr>pl_name := Some ''nginx'', pl_valuesMerge := Some ''append''\<rparr>) \<and>
   (\<exists>e. snd (snd (Config example_env example_world ''{name: nginx, valuesMerge: append}''
                     KustomizePlugin)) = Some e) \<and>
   ValuesMerge example_plugin = [] \<and>
   snd (snd (validateArgs example_env example_world example_plugin)) = None \<and>
   ValuesMerge (fst (snd (validateArgs example_env example_world example_plugin))) =
     ''override''"
proof -
  have a: "ValuesMerge (example_plugin\<lparr>ValuesMerge := ''append''\<rparr>) \<noteq> [] \<and>
           ValuesMerge (example_plugin\<lparr>ValuesMerge := ''append''\<rparr>) \<notin> set legalMergeOptions"
    by (simp add: legalMergeOptions_def valuesMergeOptionMerge_def
        valuesMergeOptionOverride_def valuesMergeOptionReplace_def)
  have d: "yaml_Decode example_env ''{name: nginx, valuesMerge: append}'' =
             Inr (empty_payload\<lparr>pl_name := Some ''nginx'', pl_valuesMerge := Some ''append''\<rparr>)"
    by (simp add: example_env_def example_decode_def)
  have b: "pl_valuesMerge (empty_payload\<lparr>pl_name := Some ''nginx'',
             pl_valuesMerge := Some ''append''\<rparr>) = Some ''append'' \<and>
           ''append'' \<noteq> [] \<and> ''append'' \<notin> set legalMergeOptions"
    by (simp add: legalMergeOptions_def valuesMergeOptionMerge_def
        valuesMergeOptionOverride_def valuesMergeOptionReplace_def)
  have c: "ValuesMerge example_plugin = []"
    by (simp add: example_plugin_def KustomizePlugin_def)
  have e: "validateArgs example_env example_world example_plugin =
     (fst (validateArgs example_env example_world example_plugin),
      fst (snd (validateArgs example_env example_world example_plugin)), None)"
    by (simp add: example_validateArgs)
  note t1 = values_merge_validation [of "example_plugin\<lparr>ValuesMerge := ''append''\<rparr>"
        example_env example_world "''{name: nginx, valuesMerge: append}''"
        "empty_payload\<lparr>pl_name := Some ''nginx'', pl_valuesMerge := Some ''append''\<rparr>"
        "''append''" KustomizePlugin]
  note t2 = values_merge_validation [of example_plugin example_env example_world
        "''{name: nginx, valuesMerge: append}''"
        "empty_payload\<lparr>pl_name := Some ''nginx'', pl_valuesMerge := Some ''append''\<rparr>"
        "''append''" example_plugin]
  from t1 a have 1: "\<exists>e. snd (snd (validateArgs example_env example_world
                     (example_plugin\<lparr>ValuesMerge := ''append''\<rparr>))) = Some e"
    by blast
  from t1 b d have 2: "\<exists>e. snd (snd (Config example_env example_world
       ''{name: nginx, valuesMerge: append}'' KustomizePlugin)) = Some e"
    by blast
  from t2 c e have 3: "ValuesMerge (fst (snd (validateArgs example_env example_world example_plugin))) =
     ''override''"
    by blast
  have 4: "snd (snd (validateArgs example_env example_world example_plugin)) = None"
    by (simp add: example_validateArgs)
  from a d c 1 2 3 4 show ?thesis by blast
qed

subsection \<open>The version gate\<close>

lemma digits_takeWhile: "takeWhile isDigit s \<noteq> [] \<Longrightarrow> digits (takeWhile isDigit s)"
  by (auto simp: digits_def list_all_iff dest: set_takeWhileD)

lemma match_groups_Nil: "match_groups [] = []"
  by (simp add: match_groups.simps)

lemma match_groups_Cons:
  "match_groups (c # t) =
     (if c = CHR ''.'' \<and> takeWhile isDigit t \<noteq> []
      then c # takeWhile isDigit t @ match_groups (dropWhile isDigit t)
      else [])"
  by (simp add: match_groups.simps [of "c # t"])

lemma match_groups_sound:
  "\<exists>gs. list_all digits gs \<and> match_groups s = concat (map ((#) (CHR ''.'')) gs)"
proof (induction s rule: match_groups.induct)
  case (1 s)
  show ?case
  proof (cases s)
    case Nil
    then have "match_groups s = concat (map ((#) (CHR ''.'')) [])"
      by (simp add: match_groups_Nil)
    then show ?thesis by (intro exI [of _ "[]"]) simp
  next
    case (Cons c t)
    show ?thesis
    proof (cases "c = CHR ''.'' \<and> takeWhile isDigit t \<noteq> []")
      case True
      from "1.IH" [OF Cons True] obtain gs where
        gs: "list_all digits gs"
        "match_groups (dropWhile isDigit t) = concat (map ((#) (CHR ''.'')) gs)"
        by blast
      have "match_groups s = concat (map ((#) (CHR ''.'')) (takeWhile isDigit t # gs))"
        using Cons True gs(2) by (simp add: match_groups_Cons match_groups_Nil)
      moreover have "list_all digits (takeWhile isDigit t # gs)"
        using True gs(1) by (simp add: digits_takeWhile)
      ultimately show ?thesis by blast
    next
      case False
      then have "match_groups s = concat (map ((#) (CHR ''.'')) [])"
        using Cons by (auto simp: match_groups_Cons match_groups_Nil)
      then show ?thesis by (intro exI [of _ "[]"]) simp
    qed
  qed
qed

lemma match_groups_prefix: "prefix (match_groups s) s"
proof (induction s rule: match_groups.induct)
  case (1 s)
  show ?case
  proof (cases s)
    case Nil
    then show ?thesis by (simp add: match_groups_Nil)
  next
    case (Cons c t)
    show ?thesis
    proof (cases "c = CHR ''.'' \<and> takeWhile isDigit t \<noteq> []")
      case True
      from "1.IH" [OF Cons True]
      have "prefix (takeWhile isDigit t @ match_groups (dropWhile isDigit t))
                   (takeWhile isDigit t @ dropWhile isDigit t)"
        by (simp only: same_prefix_prefix)
      then have "prefix (takeWhile isDigit t @ match_groups (dropWhile isDigit t)) t"
        by simp
      moreover have "match_groups s =
          c # takeWhile isDigit t @ match_groups (dropWhile isDigit t)"
        using Cons True by (simp add: match_groups_Cons)
      ultimately show ?thesis using Cons by simp
    next
      case False
      then show ?thesis using Cons by (auto simp: match_groups_Cons match_groups_Nil)
    qed
  qed
qed

lemma match_number_sound:
  assumes "match_number s = Some m"
  shows "version_number m \<and> prefix m s"
proof -
  from assms have d: "takeWhile isDigit s \<noteq> []"
    and g: "match_groups (dropWhile isDigit s) \<noteq> []"
    and m: "m = takeWhile isDigit s @ match_groups (dropWhile isDigit s)"
    by (auto simp: match_number_def split: if_splits)
  obtain gs where gs: "list_all digits gs"
    "match_groups (dropWhile isDigit s) = concat (map ((#) (CHR ''.'')) gs)"
    using match_groups_sound by blast
  from g gs(2) have "gs \<noteq> []" by auto
  with d gs m have "version_number m"
    unfolding version_number_def using digits_takeWhile by blast
  moreover have "prefix (takeWhile isDigit s @ match_groups (dropWhile isDigit s))
                        (takeWhile isDigit s @ dropWhile isDigit s)"
    using match_groups_prefix by (simp only: same_prefix_prefix)
  then have "prefix m s" using m by simp
  ultimately show ?thesis by simp
qed

lemma match_at_sound:
  assumes "match_at s = Some m"
  shows "version_token m \<and> prefix m s"
proof (cases "match_number s = Some m")
  case True
  then show ?thesis using match_number_sound by (simp add: version_token_def)
next
  case False
  with assms obtain t n where s: "s = CHR ''v'' # t" and n: "match_number t = Some n"
    and m: "m = CHR ''v'' # n"
    by (auto simp: match_at_def split: list.splits if_splits option.splits)
  from match_number_sound [OF n] s m show ?thesis
    by (simp add: version_token_def)
qed

lemma isDigit_simps [simp]: "\<not> isDigit (CHR ''.'')" "\<not> isDigit (CHR ''v'')"
  by (simp_all add: isDigit_def)

lemma match_groups_complete:
  assumes "digits g"
  shows "match_groups (CHR ''.'' # g @ r) \<noteq> []"
proof -
  from assms obtain c g' where "g = c # g'" and "isDigit c"
    by (cases g) (auto simp: digits_def)
  then have "takeWhile isDigit (g @ r) \<noteq> []" by simp
  then show ?thesis by (simp add: match_groups_Cons)
qed

lemma match_number_complete:
  assumes "version_number n"
  shows "match_number (n @ post) \<noteq> None"
proof -
  from assms obtain d g gs where d: "digits d" and g: "digits g"
    and n: "n = d @ CHR ''.'' # g @ concat (map ((#) (CHR ''.'')) gs)"
    by (auto simp: version_number_def neq_Nil_conv)
  let ?r = "concat (map ((#) (CHR ''.'')) gs) @ post"
  have np: "n @ post = d @ CHR ''.'' # g @ ?r" using n by simp
  have all: "\<forall>x\<in>set d. isDigit x" using d by (simp add: digits_def list_all_iff)
  have t: "takeWhile isDigit (n @ post) = d"
    unfolding np using all by (simp add: takeWhile_append2)
  have dr: "dropWhile isDigit (n @ post) = CHR ''.'' # g @ ?r"
    unfolding np using all by (simp add: dropWhile_append2)
  have "d \<noteq> []" using d by (simp add: digits_def)
  with t dr match_groups_complete [OF g, of ?r] show ?thesis
    by (simp add: match_number_def)
qed

lemma match_at_complete:
  assumes "version_token t"
  shows "match_at (t @ post) \<noteq> None"
proof -
  from assms consider "version_number t" | n where "t = CHR ''v'' # n" "version_number n"
    by (auto simp: version_token_def)
  then show ?thesis
  proof cases
    case 1
    from match_number_complete [OF 1, of post] show ?thesis
      by (auto simp: match_at_def split: list.splits option.splits)
  next
    case 2
    from match_number_complete [OF 2(2), of post] 2(1) show ?thesis
      by (auto simp: match_at_def)
  qed
qed

lemma version_token_nonempty: "version_token t \<Longrightarrow> t \<noteq> []"
  by (auto simp: version_token_def version_number_def digits_def)

lemma FindString_leftmost:
  "(FindString out = [] \<longrightarrow> (\<forall>pre t. version_token t \<longrightarrow> \<not> prefix (pre @ t) out)) \<and>
   (FindString out \<noteq> [] \<longrightarrow> (\<exists>pre. leftmost_token out pre (FindString out)))"
proof (induction out)
  case Nil
  then show ?case by (auto dest: version_token_nonempty)
next
  case (Cons c s)
  show ?case
  proof (cases "match_at (c # s)")
    case (Some m)
    from match_at_sound [OF Some] have m: "version_token m" "prefix m (c # s)" by simp_all
    have f: "FindString (c # s) = m" using Some by simp
    have "leftmost_token (c # s) [] m"
      using m by (simp add: leftmost_token_def)
    with f m(1) show ?thesis by (auto dest: version_token_nonempty)
  next
    case None
    then have f: "FindString (c # s) = FindString s" by simp
    have no0: "\<And>t. version_token t \<Longrightarrow> \<not> prefix t (c # s)"
    proof
      fix t assume t: "version_token t" and "prefix t (c # s)"
      then obtain post where "c # s = t @ post" by (auto simp: prefix_def)
      with match_at_complete [OF t, of post] None show False by simp
    qed
    have shift: "\<And>pre t. version_token t \<Longrightarrow> prefix (pre @ t) (c # s) \<Longrightarrow>
                 \<exists>pre'. pre = c # pre' \<and> prefix (pre' @ t) s"
    proof -
      fix pre t assume t: "version_token t" and p: "prefix (pre @ t) (c # s)"
      show "\<exists>pre'. pre = c # pre' \<and> prefix (pre' @ t) s"
      proof (cases pre)
        case Nil
        with p no0 [OF t] show ?thesis by simp
      next
        case (Cons a pre')
        with p show ?thesis by simp
      qed
    qed
    show ?thesis
    proof (intro conjI impI)
      assume "FindString (c # s) = []"
      with f Cons.IH have "\<forall>pre t. version_token t \<longrightarrow> \<not> prefix (pre @ t) s" by simp
      then show "\<forall>pre t. version_token t \<longrightarrow> \<not> prefix (pre @ t) (c # s)"
        using shift by blast
    next
      assume "FindString (c # s) \<noteq> []"
      with f Cons.IH obtain pre where l: "leftmost_token s pre (FindString s)" by auto
      have "leftmost_token (c # s) (c # pre) (FindString s)"
        unfolding leftmost_token_def
      proof (intro conjI allI impI)
        show "version_token (FindString s)" using l by (simp add: leftmost_token_def)
        show "prefix ((c # pre) @ FindString s) (c # s)"
          using l by (simp add: leftmost_token_def)
      next
        fix pre' t'
        assume "version_token t' \<and> prefix (pre' @ t') (c # s)"
        with shift obtain q where q: "pre' = c # q" "prefix (q @ t') s" "version_token t'"
          by blast
        with l have "length pre \<le> length q" by (auto simp: leftmost_token_def)
        with q(1) show "length (c # pre) \<le> length pre'" by simp
      qed
      with f show "\<exists>pre. leftmost_token (c # s) pre (FindString (c # s))" by auto
    qed
  qed
qed

lemma strings_Split_hd:
  "\<exists>r. strings_Split s sep = takeWhile (\<lambda>c. c \<noteq> sep) s # r"
proof (induction s)
  case Nil
  show ?case by simp
next
  case (Cons c s)
  then obtain r where "strings_Split s sep = takeWhile (\<lambda>c. c \<noteq> sep) s # r" by blast
  then show ?case by simp
qed

lemma version_number_shape:
  assumes "version_number n"
  obtains d r where "digits d" and "n = d @ CHR ''.'' # r"
proof -
  from assms obtain d g gs where "digits d"
    and "n = d @ CHR ''.'' # g @ concat (map ((#) (CHR ''.'')) gs)"
    by (auto simp: version_number_def neq_Nil_conv)
  then show ?thesis using that by blast
qed

lemma digits_no_dot: "digits d \<Longrightarrow> \<forall>c\<in>set d. c \<noteq> CHR ''.''"
  by (auto simp: digits_def list_all_iff)

lemma digits_hd: "digits d \<Longrightarrow> \<exists>c d'. d = c # d' \<and> isDigit c"
  by (cases d) (auto simp: digits_def)

lemma major_version_number:
  assumes "digits d"
  shows "takeWhile (\<lambda>c. c \<noteq> CHR ''.'') (d @ CHR ''.'' # r) = d"
  using digits_no_dot [OF assms] by (simp add: takeWhile_append2)

lemma digits_run:
  assumes "digits d"
  shows "takeWhile isDigit (d @ CHR ''.'' # r) = d"
proof -
  have "\<forall>x\<in>set d. isDigit x" using assms by (simp add: digits_def list_all_iff)
  then show ?thesis by (simp add: takeWhile_append2)
qed

text \<open>Every token that starts a text has the major version the text starts with.\<close>

lemma major_of_prefix:
  assumes t: "version_token t" and p: "prefix t s"
  shows "major t = takeWhile isDigit (if prefix ''v'' s then tl s else s)"
proof -
  from p obtain post where s: "s = t @ post" by (auto simp: prefix_def)
  from t consider "version_number t" | n where "t = CHR ''v'' # n" "version_number n"
    by (auto simp: version_token_def)
  then show ?thesis
  proof cases
    case 1
    then obtain d r where d: "digits d" and n: "t = d @ CHR ''.'' # r"
      by (rule version_number_shape)
    from digits_hd [OF d] obtain c d' where c: "d = c # d'" "isDigit c" by blast
    then have nv: "c \<noteq> CHR ''v''" by auto
    have "major t = d"
      using n c nv major_version_number [OF d, of r] by (simp add: major_def)
    moreover have "takeWhile isDigit (if prefix ''v'' s then tl s else s) = d"
      using s n c nv digits_run [OF d, of "r @ post"] by simp
    ultimately show ?thesis by simp
  next
    case 2
    from 2(2) obtain d r where d: "digits d" and n: "n = d @ CHR ''.'' # r"
      by (rule version_number_shape)
    have "major t = d"
      using 2(1) n major_version_number [OF d, of r] by (simp add: major_def)
    moreover have "takeWhile isDigit (if prefix ''v'' s then tl s else s) = d"
      using s 2(1) n digits_run [OF d, of "r @ post"] by simp
    ultimately show ?thesis by simp
  qed
qed

lemma checkVersionString_major:
  assumes t: "version_token t" and f: "FindString out = t"
  shows "(checkVersionString out = None) = (major t = ''3'')"
proof -
  from t have ne: "t \<noteq> []" by (rule version_token_nonempty)
  then have strip: "(if hd t = CHR ''v'' then tl t else t) = (if prefix ''v'' t then tl t else t)"
    by (cases t) auto
  obtain r where r: "strings_Split (if prefix ''v'' t then tl t else t) (CHR ''.'') = major t # r"
    using strings_Split_hd [of "if prefix ''v'' t then tl t else t" "CHR ''.''"]
    unfolding major_def by blast
  show ?thesis
    unfolding checkVersionString_def Let_def f strip r using ne by simp
qed

lemma checkVersionString_no_token:
  assumes "FindString out = []"
  shows "checkVersionString out = Some (Errorf (''cannot find version string in '' @ out))"
  using assms by (simp add: checkVersionString_def)

lemma leftmost_token_same_major:
  assumes a: "leftmost_token out pre t" and b: "leftmost_token out pre' t'"
  shows "major t = major t'"
proof -
  from a b have len: "length pre = length pre'"
    unfolding leftmost_token_def by (meson le_antisym)
  from a b have p: "prefix (pre @ t) out" "prefix (pre' @ t') out"
    by (simp_all add: leftmost_token_def)
  from p(1) obtain x where x: "out = pre @ t @ x"
    by (auto simp: prefix_def)
  from p(2) obtain y where y: "out = pre' @ t' @ y"
    by (auto simp: prefix_def)
  from x y len have e: "pre = pre'" "t @ x = t' @ y" by auto
  have "prefix t (t @ x)" by simp
  moreover have "prefix t' (t @ x)" unfolding e(2) by simp
  ultimately have "prefix t (t @ x)" "prefix t' (t @ x)" by simp_all
  with a b show ?thesis
    using major_of_prefix [of t "t @ x"] major_of_prefix [of t' "t @ x"]
    by (simp add: leftmost_token_def)
qed

lemma checkVersionString_accepts:
  "(checkVersionString out = None) = (\<exists>pre t. leftmost_token out pre t \<and> major t = ''3'')"
proof
  assume acc: "checkVersionString out = None"
  then have "FindString out \<noteq> []"
    using checkVersionString_no_token [of out] by auto
  then obtain pre where l: "leftmost_token out pre (FindString out)"
    using FindString_leftmost [of out] by blast
  then have "version_token (FindString out)" by (simp add: leftmost_token_def)
  from checkVersionString_major [OF this refl] acc have "major (FindString out) = ''3''"
    by simp
  with l show "\<exists>pre t. leftmost_token out pre t \<and> major t = ''3''" by blast
next
  assume "\<exists>pre t. leftmost_token out pre t \<and> major t = ''3''"
  then obtain pre t where l: "leftmost_token out pre t" and m: "major t = ''3''" by blast
  then have "version_token t" "prefix (pre @ t) out" by (simp_all add: leftmost_token_def)
  then have "FindString out \<noteq> []"
    using FindString_leftmost [of out] by blast
  then obtain pre0 where l0: "leftmost_token out pre0 (FindString out)"
    using FindString_leftmost [of out] by blast
  then have v0: "version_token (FindString out)" by (simp add: leftmost_token_def)
  from leftmost_token_same_major [OF l0 l] m have "major (FindString out) = ''3''" by simp
  with checkVersionString_major [OF v0 refl] show "checkVersionString out = None" by simp
qed

lemma example_env_fields:
  "GeneralConfig example_env =
     Some \<lparr>hc_Enabled = True, hc_Command = ''helm'', hc_ApiVersions = [],
           hc_KubeVersion = [], hc_Debug = False\<rparr>"
  "Root example_env = ''/work''"
  "Load example_env w path =
     (case files w path of None \<Rightarrow> Inl (Failure ''no such file'') | Some b \<Rightarrow> Inr b)"
  "NewResMapFromBytes example_env b =
     (if prefix ''kind:'' b then Inr [b] else Inl (Failure ''not a resource''))"
  "NewResMapFromRNodeSlice example_env nodes = Inr nodes"
  "ByteReader_Read example_env b =
     Inr (if b = example_output then [''kind: ConfigMap''] else [])"
  "yaml_Decode example_env = example_decode"
  "yaml_Marshal example_env = example_marshal"
  "kyaml_Parse example_env = example_parse"
  "MkdirTemp example_env w = Inr ''/tmp/kustomize-helm-1''"
  "WriteFile_error example_env w path = None"
  "exec_Run example_env w command args vars =
     (if args = [''version'', ''-c'', ''--short''] then (w, ''v3.14.0'', [], None)
      else (w, ''kind: ConfigMap'', [], None))"
  "AsHelmArgs example_env p home =
     [''template'', ''--generate-name'', Join [home, Name p], ''--values'', ValuesFile p]"
  by (simp_all add: example_env_def del: Join.simps)

lemma example_plugin_fields:
  "ChartHome example_plugin = []" "ConfigHome example_plugin = []"
  "Name example_plugin = ''nginx''" "Version example_plugin = []" "Repo example_plugin = []"
  "ValuesFile example_plugin = []" "AdditionalValuesFiles example_plugin = []"
  "ValuesInline example_plugin = []" "ValuesMerge example_plugin = []"
  "ApiVersions example_plugin = []" "KubeVersion example_plugin = []"
  "Debug example_plugin = False" "tmpDir example_plugin = []"
  by (simp_all add: example_plugin_def KustomizePlugin_def)

lemma helm_reporting_run:
  "runHelmCommand (helm_reporting out) example_world example_plugin args =
     (example_world\<lparr>trace := [Ran ''helm'' args
        [''HELM_CONFIG_HOME='', ''HELM_CACHE_HOME=/.cache'', ''HELM_DATA_HOME=/.data'']]\<rparr>,
      out, None)"
  by (simp add: runHelmCommand_def helm_reporting_def example_env_fields
      example_plugin_fields example_world_def)

text \<open>
  Claim C8. When the version probe runs without error and prints \<open>out\<close>, the gate passes
  exactly when the leftmost version token of \<open>out\<close> (the language of
  \<^verbatim>\<open>v?\d+(\.\d+)+\<close>) has major version 3. The output \<^verbatim>\<open>v2.16.1\<close> is rejected,
  \<^verbatim>\<open>3.14.0\<close> and \<^verbatim>\<open>v3.0.0\<close> pass, and an output in which no version token occurs is
  rejected.
\<close>

theorem version_gate:
  assumes "runHelmCommand env w p [''version'', ''-c'', ''--short''] = (w', out, None)"
  shows "((snd (checkHelmVersion env w p) = None) =
            (\<exists>pre t. leftmost_token out pre t \<and> major t = ''3'')) \<and>
         (out = ''v2.16.1'' \<longrightarrow>
            snd (checkHelmVersion env w p) =
              Some (Errorf ''this plugin requires helm V3 but got v2.16.1'')) \<and>
         (out = ''3.14.0'' \<or> out = ''v3.0.0'' \<longrightarrow> snd (checkHelmVersion env w p) = None) \<and>
         ((\<forall>pre t. version_token t \<longrightarrow> \<not> prefix (pre @ t) out) \<longrightarrow>
            snd (checkHelmVersion env w p) =
              Some (Errorf (''cannot find version string in '' @ out)))"
proof -
  have c: "snd (checkHelmVersion env w p) = checkVersionString out"
    using assms by (simp add: checkHelmVersion_def)
  have 1: "(checkVersionString out = None) =
            (\<exists>pre t. leftmost_token out pre t \<and> major t = ''3'')"
    by (rule checkVersionString_accepts)
  have 2: "checkVersionString ''v2.16.1'' =
             Some (Errorf ''this plugin requires helm V3 but got v2.16.1'')"
    by (simp add: checkVersionString_def match_at_def match_number_def match_groups_Cons
        match_groups_Nil isDigit_def)
  have 3: "checkVersionString ''3.14.0'' = None"
    by (simp add: checkVersionString_def match_at_def match_number_def match_groups_Cons
        match_groups_Nil isDigit_def)
  have 4: "checkVersionString ''v3.0.0'' = None"
    by (simp add: checkVersionString_def match_at_def match_number_def match_groups_Cons
        match_groups_Nil isDigit_def)
  have 5: "(\<forall>pre t. version_token t \<longrightarrow> \<not> prefix (pre @ t) out) \<longrightarrow>
            checkVersionString out = Some (Errorf (''cannot find version string in '' @ out))"
  proof
    assume n: "\<forall>pre t. version_token t \<longrightarrow> \<not> prefix (pre @ t) out"
    have "FindString out = []"
    proof (rule ccontr)
      assume "FindString out \<noteq> []"
      then obtain pre where "leftmost_token out pre (FindString out)"
        using FindString_leftmost [of out] by blast
      with n show False unfolding leftmost_token_def by blast
    qed
    then show "checkVersionString out = Some (Errorf (''cannot find version string in '' @ out))"
      by (rule checkVersionString_no_token)
  qed
  from 1 2 3 4 5 show ?thesis unfolding c by auto
qed

theorem version_gate_witness:
  "snd (checkHelmVersion (helm_reporting ''v2.16.1'') example_world example_plugin) =
     Some (Errorf ''this plugin requires helm V3 but got v2.16.1'') \<and>
   snd (checkHelmVersion (helm_reporting ''3.14.0'') example_world example_plugin) = None \<and>
   snd (checkHelmVersion (helm_reporting ''v3.0.0'') example_world example_plugin) = None \<and>
   (\<exists>pre t. leftmost_token ''v3.0.0'' pre t \<and> major t = ''3'') \<and>
   \<not> (\<exists>pre t. version_token t \<and> prefix (pre @ t) ''Error: unknown command'') \<and>
   snd (checkHelmVersion (helm_reporting ''Error: unknown command'') example_world
          example_plugin) =
     Some (Errorf ''cannot find version string in Error: unknown command'')"
proof -
  have f: "FindString ''Error: unknown command'' = []"
    by (simp add: match_at_def match_number_def isDigit_def)
  then have n: "\<forall>pre t. version_token t \<longrightarrow> \<not> prefix (pre @ t) ''Error: unknown command''"
    using FindString_leftmost [of "''Error: unknown command''"] by blast
  note g = version_gate [OF helm_reporting_run]
  have 1: "snd (checkHelmVersion (helm_reporting ''v2.16.1'') example_world example_plugin) =
     Some (Errorf ''this plugin requires helm V3 but got v2.16.1'')"
    using g [of "''v2.16.1''"] by simp
  have 2: "snd (checkHelmVersion (helm_reporting ''3.14.0'') example_world example_plugin) = None"
    using g [of "''3.14.0''"] by simp
  have 3: "snd (checkHelmVersion (helm_reporting ''v3.0.0'') example_world example_plugin) = None"
    using g [of "''v3.0.0''"] by simp
  have 4: "\<exists>pre t. leftmost_token ''v3.0.0'' pre t \<and> major t = ''3''"
    using g [of "''v3.0.0''"] 3 by blast
  have 5: "snd (checkHelmVersion (helm_reporting ''Error: unknown command'') example_world
          example_plugin) =
     Some (Errorf ''cannot find version string in Error: unknown command'')"
    using g [of "''Error: unknown command''"] n by simp
  from n have n': "\<not> (\<exists>pre t. version_token t \<and>
                      prefix (pre @ t) ''Error: unknown command'')"
    by blast
  from 1 2 3 4 5 n' show ?thesis by blast
qed

subsection \<open>The orchestration\<close>

lemma rendering_fields:
  "GeneralConfig (rendering out conv) =
     Some \<lparr>hc_Enabled = True, hc_Command = ''helm'', hc_ApiVersions = [],
           hc_KubeVersion = [], hc_Debug = False\<rparr>"
  "Root (rendering out conv) = ''/work''"
  "Load (rendering out conv) w path =
     (case files w path of None \<Rightarrow> Inl (Failure ''no such file'') | Some b \<Rightarrow> Inr b)"
  "NewResMapFromBytes (rendering out conv) b =
     (if prefix ''kind:'' b then Inr [b] else Inl (Failure ''not a resource''))"
  "NewResMapFromRNodeSlice (rendering out conv) = conv"
  "ByteReader_Read (rendering out conv) b =
     Inr (if b = example_output then [''kind: ConfigMap''] else [])"
  "yaml_Marshal (rendering out conv) = example_marshal"
  "kyaml_Parse (rendering out conv) = example_parse"
  "MkdirTemp (rendering out conv) w = Inr ''/tmp/kustomize-helm-1''"
  "WriteFile_error (rendering out conv) w path = None"
  "exec_Run (rendering out conv) w command args vars =
     (if args = [''version'', ''-c'', ''--short''] then (w, ''v3.14.0'', [], None)
      else (w, out, [], None))"
  "AsHelmArgs (rendering out conv) p home =
     [''template'', ''--generate-name'', Join [home, Name p], ''--values'', ValuesFile p]"
  by (simp_all add: rendering_def example_env_fields del: Join.simps)

lemma ready_plugin_fields:
  "ChartHome ready_plugin = ''charts''" "ConfigHome ready_plugin = ''/tmp/kustomize-helm-1/helm''"
  "Name ready_plugin = ''nginx''" "Version ready_plugin = []" "Repo ready_plugin = []"
  "ValuesFile ready_plugin = ''/work/charts/nginx/values.yaml''"
  "AdditionalValuesFiles ready_plugin = []"
  "ValuesInline ready_plugin = []" "ValuesMerge ready_plugin = ''override''"
  "ApiVersions ready_plugin = []" "KubeVersion ready_plugin = []"
  "Debug ready_plugin = False" "tmpDir ready_plugin = ''/tmp/kustomize-helm-1''"
  by (simp_all add: ready_plugin_def example_plugin_def KustomizePlugin_def)

lemma ready_world_fields:
  "files ready_world =
     [''/work/charts/nginx/values.yaml'' \<mapsto> ''{replicas: 1, port: 80}'',
      ''/work/nested.yaml'' \<mapsto> ''{resources: {limits: 1}}'']"
  "dirs ready_world =
     {''/tmp/kustomize-helm-1'', ''/work'', ''/work/charts'', ''/work/charts/nginx''}"
  "trace ready_world = []"
  by (simp_all add: ready_world_def example_world_def)

lemma Join_charts_nginx: "Join [''/work/charts'', ''nginx''] = ''/work/charts/nginx''"
  by (simp add: Join.simps Clean_def Separator_def)

lemma Join_tmp_values:
  "Join [''/tmp/kustomize-helm-1'', ''nginx-kustomize-values.yaml''] =
     ''/tmp/kustomize-helm-1/nginx-kustomize-values.yaml''"
  by (simp add: Join.simps Clean_def Separator_def)

lemma ready_absChartHome: "absChartHome (rendering out conv) ready_plugin = ''/work/charts''"
  by (simp add: absChartHome_def rendering_fields ready_plugin_fields IsAbs_def
      Separator_def Join_work_charts del: Join.simps)

lemma ready_run:
  "ConfigHome p = ''/tmp/kustomize-helm-1/helm'' \<Longrightarrow>
   runHelmCommand (rendering out conv) w p args =
     (w\<lparr>trace := trace w @ [Ran ''helm'' args helm_vars]\<rparr>,
      if args = [''version'', ''-c'', ''--short''] then ''v3.14.0'' else out, None)"
  by (simp add: runHelmCommand_def rendering_fields helm_vars_def Let_def)

lemma ready_Generate_chart:
  "Generate_chart (rendering out conv) ready_world ready_plugin =
     (ready_world\<lparr>trace := [Ran ''helm'' [''version'', ''-c'', ''--short''] helm_vars]\<rparr>, None)"
proof -
  have v: "checkVersionString ''v3.14.0'' = None"
    by (simp add: checkVersionString_def match_at_def match_number_def
        match_groups.simps [of "''.14.0''"] match_groups.simps [of "''.0''"]
        match_groups.simps [of "[]"] isDigit_def)
  have c: "checkHelmVersion (rendering out conv) ready_world ready_plugin =
     (ready_world\<lparr>trace := [Ran ''helm'' [''version'', ''-c'', ''--short''] helm_vars]\<rparr>, None)"
    by (simp add: checkHelmVersion_def ready_run ready_plugin_fields v ready_world_fields)
  have e: "chartExistsLocally (rendering out conv)
             (ready_world\<lparr>trace := [Ran ''helm'' [''version'', ''-c'', ''--short''] helm_vars]\<rparr>)
             ready_plugin = (''/work/charts/nginx'', True)"
    by (simp add: chartExistsLocally_def ready_absChartHome ready_plugin_fields
        Join_charts_nginx os_Stat_def ready_world_fields del: Join.simps)
  show ?thesis
    by (simp add: Generate_chart_def c e)
qed

lemma Generate_body_rendered:
  assumes "Generate_chart env w p = (w1, None)"
    and "Generate_values env w1 p = (w2, p2, None)"
    and "runHelmCommand env w2 p2 (AsHelmArgs env p2 (absChartHome env p2)) = (w3, out, None)"
  shows "Generate_body env w p = (w3, p2, Generate_parse env out)"
  using assms by (simp add: Generate_body_def)

lemma Generate_rendered:
  assumes "Generate_chart env w p = (w1, None)"
    and "Generate_values env w1 p = (w2, p2, None)"
    and "runHelmCommand env w2 p2 (AsHelmArgs env p2 (absChartHome env p2)) = (w3, out, None)"
  shows "Generate env w p = (cleanup w3 p2, p2, Generate_parse env out)"
  using Generate_body_rendered [OF assms] by (simp add: Generate_def)

lemma absChartHome_ValuesFile [simp]:
  "absChartHome env (p\<lparr>ValuesFile := v\<rparr>) = absChartHome env p"
  by (simp add: absChartHome_def Let_def del: Join.simps)

lemma ready_Generate_values:
  assumes "files w ''/work/charts/nginx/values.yaml'' = Some b"
  shows "Generate_values (rendering out conv) w ready_plugin =
     (w\<lparr>trace := trace w @ [Loaded ''/work/charts/nginx/values.yaml''],
        files := (files w)(''/tmp/kustomize-helm-1/nginx-kustomize-values.yaml'' \<mapsto> b)\<rparr>,
      ready_plugin\<lparr>ValuesFile := ''/tmp/kustomize-helm-1/nginx-kustomize-values.yaml''\<rparr>,
      None)"
  using assms
  by (simp add: Generate_values_def copyValuesFile_def Loader_Load_def writeValuesBytes_def
      establishTmpDir_def os_WriteFile_def rendering_fields ready_plugin_fields
      Join_tmp_values Let_def del: Join.simps)

lemma ready_Generate_body:
  "Generate_body (rendering out conv) ready_world ready_plugin =
     (rendered_world ''{replicas: 1, port: 80}'',
      ready_plugin\<lparr>ValuesFile := ''/tmp/kustomize-helm-1/nginx-kustomize-values.yaml''\<rparr>,
      Generate_parse (rendering out conv) out)"
proof -
  let ?w1 = "ready_world\<lparr>trace := [Ran ''helm'' [''version'', ''-c'', ''--short''] helm_vars]\<rparr>"
  let ?p2 = "ready_plugin\<lparr>ValuesFile := ''/tmp/kustomize-helm-1/nginx-kustomize-values.yaml''\<rparr>"
  have f: "files ?w1 ''/work/charts/nginx/values.yaml'' = Some ''{replicas: 1, port: 80}''"
    by (simp add: ready_world_fields)
  note v = ready_Generate_values [OF f, of out conv]
  have a: "absChartHome (rendering out conv) ?p2 = ''/work/charts''"
    by (simp add: ready_absChartHome)
  have r: "runHelmCommand (rendering out conv)
             (?w1\<lparr>trace := trace ?w1 @ [Loaded ''/work/charts/nginx/values.yaml''],
                  files := (files ?w1)(''/tmp/kustomize-helm-1/nginx-kustomize-values.yaml'' \<mapsto>
                             ''{replicas: 1, port: 80}'')\<rparr>)
             ?p2 (AsHelmArgs (rendering out conv) ?p2 (absChartHome (rendering out conv) ?p2)) =
           (rendered_world ''{replicas: 1, port: 80}'', out, None)"
    unfolding a
    by (simp add: ready_run ready_plugin_fields rendering_fields Join_charts_nginx
        rendered_world_def del: Join.simps)
  show ?thesis
    by (rule Generate_body_rendered [OF ready_Generate_chart v r])
qed


lemma example_output_not_resource: "\<not> prefix ''kind:'' example_output"
  by (simp add: example_output_def)

text \<open>
  Claim C5, as amended. When the template command has printed \<open>out\<close> and the strict parse of
  \<open>out\<close> fails, the permissive scan is run. If it yields one or more nodes and they
  convert into a resource map, that map is the result and the strict failure is dropped;
  if they do not convert, the operation fails with an error that wraps the failure of the
  conversion; if it yields no node, the operation fails with an error that wraps the
  strict failure.
\<close>

theorem output_parse_fallback:
  assumes "Generate_chart env w p = (w1, None)"
    and "Generate_values env w1 p = (w2, p2, None)"
    and "runHelmCommand env w2 p2 (AsHelmArgs env p2 (absChartHome env p2)) = (w3, out, None)"
    and "NewResMapFromBytes env out = Inl e0"
  shows "(\<forall>nodes rm. ByteReader_Read env out = Inr nodes \<and> nodes \<noteq> [] \<and>
            NewResMapFromRNodeSlice env nodes = Inr rm \<longrightarrow>
            snd (snd (Generate env w p)) = Inr rm) \<and>
         (\<forall>nodes e. ByteReader_Read env out = Inr nodes \<and> nodes \<noteq> [] \<and>
            NewResMapFromRNodeSlice env nodes = Inl e \<longrightarrow>
            snd (snd (Generate env w p)) =
              Inl (Errorf_w ''could not parse rnode slice into resource map: '' e)) \<and>
         (ByteReader_Read env out = Inr [] \<longrightarrow>
            snd (snd (Generate env w p)) =
              Inl (Errorf_w ''could not parse bytes into resource map: '' e0))"
proof -
  have g: "snd (snd (Generate env w p)) = Generate_parse env out"
    using Generate_rendered [OF assms(1,2,3)] by simp
  show ?thesis
    unfolding g using assms(4) by (simp add: Generate_parse_def)
qed

theorem output_parse_fallback_witness:
  "NewResMapFromBytes (rendering example_output Inr) example_output =
     Inl (Failure ''not a resource'') \<and>
   ByteReader_Read (rendering example_output Inr) example_output = Inr [''kind: ConfigMap''] \<and>
   snd (snd (Generate (rendering example_output Inr) ready_world ready_plugin)) =
     Inr [''kind: ConfigMap''] \<and>
   NewResMapFromBytes (rendering ''NOTE: installed'' Inr) ''NOTE: installed'' =
     Inl (Failure ''not a resource'') \<and>
   ByteReader_Read (rendering ''NOTE: installed'' Inr) ''NOTE: installed'' = Inr [] \<and>
   snd (snd (Generate (rendering ''NOTE: installed'' Inr) ready_world ready_plugin)) =
     Inl (Errorf_w ''could not parse bytes into resource map: '' (Failure ''not a resource''))"
proof -
  let ?w1 = "ready_world\<lparr>trace := [Ran ''helm'' [''version'', ''-c'', ''--short''] helm_vars]\<rparr>"
  have f: "files ?w1 ''/work/charts/nginx/values.yaml'' = Some ''{replicas: 1, port: 80}''"
    by (simp add: ready_world_fields)
  have b: "\<And>out. runHelmCommand (rendering out Inr)
      (?w1\<lparr>trace := trace ?w1 @ [Loaded ''/work/charts/nginx/values.yaml''],
           files := (files ?w1)(''/tmp/kustomize-helm-1/nginx-kustomize-values.yaml'' \<mapsto>
                      ''{replicas: 1, port: 80}'')\<rparr>)
      (ready_plugin\<lparr>ValuesFile := ''/tmp/kustomize-helm-1/nginx-kustomize-values.yaml''\<rparr>)
      (AsHelmArgs (rendering out Inr)
         (ready_plugin\<lparr>ValuesFile := ''/tmp/kustomize-helm-1/nginx-kustomize-values.yaml''\<rparr>)
         (absChartHome (rendering out Inr)
            (ready_plugin\<lparr>ValuesFile :=
               ''/tmp/kustomize-helm-1/nginx-kustomize-values.yaml''\<rparr>))) =
      (rendered_world ''{replicas: 1, port: 80}'', out, None)"
    by (simp add: ready_absChartHome ready_run ready_plugin_fields rendering_fields
        Join_charts_nginx rendered_world_def del: Join.simps)
  have p1: "NewResMapFromBytes (rendering example_output Inr) example_output =
     Inl (Failure ''not a resource'')"
    by (simp add: rendering_fields example_output_not_resource)
  have r1: "ByteReader_Read (rendering example_output Inr) example_output =
     Inr [''kind: ConfigMap'']"
    by (simp add: rendering_fields)
  have p2: "NewResMapFromBytes (rendering ''NOTE: installed'' Inr) ''NOTE: installed'' =
     Inl (Failure ''not a resource'')"
    by (simp add: rendering_fields)
  have r2: "ByteReader_Read (rendering ''NOTE: installed'' Inr) ''NOTE: installed'' = Inr []"
    by (simp add: rendering_fields example_output_def)
  have c: "NewResMapFromRNodeSlice (rendering example_output Inr) [''kind: ConfigMap''] =
     Inr [''kind: ConfigMap'']"
    by (simp add: rendering_fields)
  note t1 = output_parse_fallback [OF ready_Generate_chart ready_Generate_values [OF f] b p1]
  note t2 = output_parse_fallback [OF ready_Generate_chart ready_Generate_values [OF f] b p2]
  have 1: "snd (snd (Generate (rendering example_output Inr) ready_world ready_plugin)) =
     Inr [''kind: ConfigMap'']"
    using t1 r1 c by blast
  have 2: "snd (snd (Generate (rendering ''NOTE: installed'' Inr) ready_world ready_plugin)) =
     Inl (Errorf_w ''could not parse bytes into resource map: '' (Failure ''not a resource''))"
    using t2 r2 by blast
  from p1 r1 1 p2 r2 2 show ?thesis by blast
qed

text \<open>
  The claim as stated fails: with a factory whose conversion of nodes fails, the scan of
  the example output yields one node, and the operation returns the conversion error.
\<close>

theorem output_parse_fallback_counterexample:
  "NewResMapFromBytes (rendering example_output failing_conversion) example_output =
     Inl (Failure ''not a resource'') \<and>
   ByteReader_Read (rendering example_output failing_conversion) example_output =
     Inr [''kind: ConfigMap''] \<and>
   snd (snd (Generate (rendering example_output failing_conversion) ready_world ready_plugin)) =
     Inl (Errorf_w ''could not parse rnode slice into resource map: ''
            (Failure ''may not add resource with an already registered id''))"
proof -
  have "snd (snd (Generate (rendering example_output failing_conversion) ready_world
                    ready_plugin)) =
        Generate_parse (rendering example_output failing_conversion) example_output"
    using ready_Generate_body [of example_output failing_conversion]
    by (simp add: Generate_def)
  then show ?thesis
    by (simp add: Generate_parse_def rendering_fields example_output_not_resource
        failing_conversion_def)
qed










text \<open>
  Claim C10. After the version gate has passed, when the chart path cannot be stat'ed the
  local check returns the empty string and false, and with no repository configured
  \<^verbatim>\<open>Generate\<close> fails with a message that quotes the empty string; when the path exists
  and is not a directory, the check returns the path and the message quotes it.
\<close>

theorem chart_not_found_reports_empty_path:
  assumes "checkHelmVersion env w p = (w1, None)"
  shows "(\<forall>e. os_Stat w1 (Join [absChartHome env p, Name p]) = Inl e \<longrightarrow>
            chartExistsLocally env w1 p = ([], False) \<and>
            (Repo p = [] \<longrightarrow>
               snd (snd (Generate env w p)) =
                 Inl (Errorf (''no repo specified for pull, no chart found at '' @
                              [CHR 0x27] @ [] @ [CHR 0x27])))) \<and>
         (os_Stat w1 (Join [absChartHome env p, Name p]) = Inr False \<longrightarrow>
            chartExistsLocally env w1 p = (Join [absChartHome env p, Name p], False) \<and>
            (Repo p = [] \<longrightarrow>
               snd (snd (Generate env w p)) =
                 Inl (Errorf (''no repo specified for pull, no chart found at '' @
                              [CHR 0x27] @ Join [absChartHome env p, Name p] @ [CHR 0x27]))))"
proof (intro conjI allI impI)
  fix e
  assume s: "os_Stat w1 (Join [absChartHome env p, Name p]) = Inl e"
  then show c: "chartExistsLocally env w1 p = ([], False)"
    by (simp add: chartExistsLocally_def Let_def del: Join.simps)
  assume "Repo p = []"
  with assms c show "snd (snd (Generate env w p)) =
      Inl (Errorf (''no repo specified for pull, no chart found at '' @
                   [CHR 0x27] @ [] @ [CHR 0x27]))"
    by (simp add: Generate_def Generate_body_def Generate_chart_def)
next
  assume s: "os_Stat w1 (Join [absChartHome env p, Name p]) = Inr False"
  then show c: "chartExistsLocally env w1 p = (Join [absChartHome env p, Name p], False)"
    by (simp add: chartExistsLocally_def Let_def del: Join.simps)
  assume "Repo p = []"
  with assms c show "snd (snd (Generate env w p)) =
      Inl (Errorf (''no repo specified for pull, no chart found at '' @
                   [CHR 0x27] @ Join [absChartHome env p, Name p] @ [CHR 0x27]))"
    by (simp add: Generate_def Generate_body_def Generate_chart_def del: Join.simps)
qed

lemma ready_checkHelmVersion:
  "checkHelmVersion (rendering out conv) w ready_plugin =
     (w\<lparr>trace := trace w @ [Ran ''helm'' [''version'', ''-c'', ''--short''] helm_vars]\<rparr>, None)"
proof -
  have v: "checkVersionString ''v3.14.0'' = None"
    by (simp add: checkVersionString_def match_at_def match_number_def
        match_groups_Cons match_groups_Nil isDigit_def)
  show ?thesis
    by (simp add: checkHelmVersion_def ready_run ready_plugin_fields v)
qed

theorem chart_not_found_reports_empty_path_witness:
  "os_Stat (no_chart_world\<lparr>trace := trace no_chart_world @
              [Ran ''helm'' [''version'', ''-c'', ''--short''] helm_vars]\<rparr>)
     (Join [absChartHome (rendering ''kind: ConfigMap'' Inr) ready_plugin, Name ready_plugin]) =
     Inl (Failure ''stat /work/charts/nginx: no such file or directory'') \<and>
   Repo ready_plugin = [] \<and>
   snd (snd (Generate (rendering ''kind: ConfigMap'' Inr) no_chart_world ready_plugin)) =
     Inl (Errorf (''no repo specified for pull, no chart found at '' @ [CHR 0x27, CHR 0x27])) \<and>
   os_Stat (chart_is_file_world\<lparr>trace := trace chart_is_file_world @
              [Ran ''helm'' [''version'', ''-c'', ''--short''] helm_vars]\<rparr>)
     (Join [absChartHome (rendering ''kind: ConfigMap'' Inr) ready_plugin, Name ready_plugin]) =
     Inr False \<and>
   snd (snd (Generate (rendering ''kind: ConfigMap'' Inr) chart_is_file_world ready_plugin)) =
     Inl (Errorf (''no repo specified for pull, no chart found at '' @ [CHR 0x27] @
                  ''/work/charts/nginx'' @ [CHR 0x27]))"
proof -
  have j: "Join [absChartHome (rendering ''kind: ConfigMap'' Inr) ready_plugin,
                 Name ready_plugin] = ''/work/charts/nginx''"
    by (simp add: ready_absChartHome ready_plugin_fields Join_charts_nginx del: Join.simps)
  have s1: "os_Stat (no_chart_world\<lparr>trace := trace no_chart_world @
              [Ran ''helm'' [''version'', ''-c'', ''--short''] helm_vars]\<rparr>)
     (Join [absChartHome (rendering ''kind: ConfigMap'' Inr) ready_plugin, Name ready_plugin]) =
     Inl (Failure ''stat /work/charts/nginx: no such file or directory'')"
    unfolding j
    by (simp add: os_Stat_def no_chart_world_def ready_world_fields)
  have s2: "os_Stat (chart_is_file_world\<lparr>trace := trace chart_is_file_world @
              [Ran ''helm'' [''version'', ''-c'', ''--short''] helm_vars]\<rparr>)
     (Join [absChartHome (rendering ''kind: ConfigMap'' Inr) ready_plugin, Name ready_plugin]) =
     Inr False"
    unfolding j
    by (simp add: os_Stat_def chart_is_file_world_def no_chart_world_def ready_world_fields)
  have r: "Repo ready_plugin = []" by (simp add: ready_plugin_fields)
  note t1 = chart_not_found_reports_empty_path
    [OF ready_checkHelmVersion [of "''kind: ConfigMap''" Inr no_chart_world]]
  note t2 = chart_not_found_reports_empty_path
    [OF ready_checkHelmVersion [of "''kind: ConfigMap''" Inr chart_is_file_world]]
  have 1: "snd (snd (Generate (rendering ''kind: ConfigMap'' Inr) no_chart_world ready_plugin)) =
     Inl (Errorf (''no repo specified for pull, no chart found at '' @ [CHR 0x27, CHR 0x27]))"
    using t1 s1 r by simp
  have 2: "snd (snd (Generate (rendering ''kind: ConfigMap'' Inr) chart_is_file_world
                       ready_plugin)) =
     Inl (Errorf (''no repo specified for pull, no chart found at '' @ [CHR 0x27] @
                  ''/work/charts/nginx'' @ [CHR 0x27]))"
    using t2 s2 r unfolding j by simp
  from s1 r 1 s2 2 show ?thesis by blast
qed

lemma writeValuesBytes_file:
  assumes "writeValuesBytes env w p b = (w', p', path, None)"
  shows "files w' path = Some b \<and> path = Join [tmpDir p', Name p' @ ''-kustomize-values.yaml'']
         \<and> trace w' = trace w \<and> ValuesInline p' = ValuesInline p"
proof -
  obtain w1 p1 r1 where e: "establishTmpDir env w p = (w1, p1, r1)"
    by (cases "establishTmpDir env w p")
  have t: "trace w1 = trace w"
    using establishTmpDir_trace [of env w p] e by simp
  have n: "Name p1 = Name p \<and> ValuesInline p1 = ValuesInline p"
    using e by (auto simp: establishTmpDir_def split: if_splits prod.splits sum.splits)
  from assms e t n show ?thesis
    by (cases r1)
       (auto simp: writeValuesBytes_def Let_def os_WriteFile_def
             split: option.splits simp del: Join.simps)
qed

lemma os_libraries:
  "os_WriteFile (env\<lparr>kyaml_Parse := parse, yaml_Marshal := marshal\<rparr>) w path b =
     os_WriteFile env w path b"
  "establishTmpDir (env\<lparr>kyaml_Parse := parse, yaml_Marshal := marshal\<rparr>) w p =
     establishTmpDir env w p"
  by (simp_all add: os_WriteFile_def establishTmpDir_def os_MkdirTemp_def)

lemma writeValuesBytes_libraries:
  "writeValuesBytes (env\<lparr>kyaml_Parse := parse, yaml_Marshal := marshal\<rparr>) w p b =
     writeValuesBytes env w p b"
  by (simp add: writeValuesBytes_def os_libraries del: Join.simps
      cong: prod.case_cong option.case_cong)

text \<open>
  Claim C6. With no inline values, when the values step succeeds the file it names holds
  exactly the bytes the loader returned for the base values file; the file is the one
  \<^verbatim>\<open>writeValuesBytes\<close> names inside the temporary directory, and neither the YAML parser
  nor the serialiser has any influence on the step.
\<close>

theorem copy_values_file:
  assumes "ValuesInline p = []" and "Generate_values env w p = (w', p', None)"
  shows "(\<exists>b. Load env w (ValuesFile p) = Inr b \<and> files w' (ValuesFile p') = Some b) \<and>
         ValuesFile p' = Join [tmpDir p', Name p' @ ''-kustomize-values.yaml''] \<and>
         Generate_values (env\<lparr>kyaml_Parse := parse, yaml_Marshal := marshal\<rparr>) w p =
           Generate_values env w p"
proof -
  obtain b where l: "Load env w (ValuesFile p) = Inr b"
    using assms
    by (cases "Load env w (ValuesFile p)")
       (auto simp: Generate_values_def copyValuesFile_def Loader_Load_def)
  let ?w1 = "w\<lparr>trace := trace w @ [Loaded (ValuesFile p)]\<rparr>"
  obtain w2 p2 path r where wv: "writeValuesBytes env ?w1 p b = (w2, p2, path, r)"
    by (cases "writeValuesBytes env ?w1 p b")
  from assms l wv have eq: "w' = w2" "p' = p2\<lparr>ValuesFile := path\<rparr>" "r = None"
    by (simp_all add: Generate_values_def copyValuesFile_def Loader_Load_def)
  have wf: "files w2 path = Some b"
    "path = Join [tmpDir p2, Name p2 @ ''-kustomize-values.yaml'']"
    using writeValuesBytes_file [of env ?w1 p b w2 p2 path] wv eq(3) by blast+
  have "files w' (ValuesFile p') = Some b"
    unfolding eq using wf(1) by simp
  moreover have "ValuesFile p' = Join [tmpDir p', Name p' @ ''-kustomize-values.yaml'']"
    unfolding eq using wf(2) by (simp del: Join.simps)
  moreover have "Generate_values (env\<lparr>kyaml_Parse := parse, yaml_Marshal := marshal\<rparr>) w p =
           Generate_values env w p"
    using assms(1)
    by (simp add: Generate_values_def copyValuesFile_def Loader_Load_def
        writeValuesBytes_libraries cong: sum.case_cong)
  ultimately show ?thesis using l by blast
qed

theorem copy_values_file_witness:
  "ValuesInline ready_plugin = [] \<and>
   snd (snd (Generate_values example_env ready_world ready_plugin)) = None \<and>
   Load example_env ready_world (ValuesFile ready_plugin) = Inr ''{replicas: 1, port: 80}'' \<and>
   files (fst (Generate_values example_env ready_world ready_plugin))
     (ValuesFile (fst (snd (Generate_values example_env ready_world ready_plugin)))) =
     Some ''{replicas: 1, port: 80}''"
proof -
  have e: "example_env = rendering ''kind: ConfigMap'' Inr"
    by (simp add: rendering_def example_env_def)
  have f: "files ready_world ''/work/charts/nginx/values.yaml'' = Some ''{replicas: 1, port: 80}''"
    by (simp add: ready_world_fields)
  note v = ready_Generate_values [OF f, of "''kind: ConfigMap''" Inr, folded e]
  have i: "ValuesInline ready_plugin = []" by (simp add: ready_plugin_fields)
  have l: "Load example_env ready_world (ValuesFile ready_plugin) =
             Inr ''{replicas: 1, port: 80}''"
    by (simp add: example_env_fields ready_plugin_fields ready_world_fields)
  from copy_values_file [OF i v] l
  have "files (fst (Generate_values example_env ready_world ready_plugin))
     (ValuesFile (fst (snd (Generate_values example_env ready_world ready_plugin)))) =
     Some ''{replicas: 1, port: 80}''"
    by (simp add: v)
  with i l v show ?thesis by simp
qed

lemma replace_not_merge:
  "valuesMergeOptionReplace \<noteq> valuesMergeOptionMerge"
  "valuesMergeOptionReplace \<noteq> valuesMergeOptionOverride"
  by (simp_all add: valuesMergeOptionReplace_def valuesMergeOptionMerge_def
      valuesMergeOptionOverride_def)

lemma createNewMergedValuesFile_replace:
  assumes "ValuesMerge p = valuesMergeOptionReplace"
  shows "createNewMergedValuesFile env w p =
     (case yaml_Marshal env (ValuesInline p) of
        Inl e \<Rightarrow> (w, p, [], Some e)
      | Inr b \<Rightarrow> writeValuesBytes env w p b)"
  using assms by (simp add: createNewMergedValuesFile_def replace_not_merge)

lemma writeValuesBytes_trace: "trace (fst (writeValuesBytes env w p b)) = trace w"
proof -
  obtain w1 p1 r1 where e: "establishTmpDir env w p = (w1, p1, r1)"
    by (cases "establishTmpDir env w p")
  have "trace w1 = trace w"
    using establishTmpDir_trace [of env w p] e by simp
  with e show ?thesis
    by (cases r1)
       (auto simp: writeValuesBytes_def Let_def os_WriteFile_def
             split: option.splits simp del: Join.simps)
qed

lemma os_loader:
  "os_WriteFile (env\<lparr>Load := load\<rparr>) w path b = os_WriteFile env w path b"
  "establishTmpDir (env\<lparr>Load := load\<rparr>) w p = establishTmpDir env w p"
  by (simp_all add: os_WriteFile_def establishTmpDir_def os_MkdirTemp_def)

lemma writeValuesBytes_loader:
  "writeValuesBytes (env\<lparr>Load := load\<rparr>) w p b = writeValuesBytes env w p b"
  by (simp add: writeValuesBytes_def os_loader del: Join.simps
      cong: prod.case_cong option.case_cong)

lemma runHelmCommand_loads:
  "filter is_Loaded (trace (fst (runHelmCommand env w p args))) = filter is_Loaded (trace w)"
  by (simp add: runHelmCommand_def Let_def split: option.splits prod.splits)

lemma Generate_chart_loads:
  "filter is_Loaded (trace (fst (Generate_chart env w p))) = filter is_Loaded (trace w)"
proof -
  obtain w1 out r where c: "runHelmCommand env w p [''version'', ''-c'', ''--short''] = (w1, out, r)"
    by (cases "runHelmCommand env w p [''version'', ''-c'', ''--short'']")
  have w1: "filter is_Loaded (trace w1) = filter is_Loaded (trace w)"
    using runHelmCommand_loads [of env w p "[''version'', ''-c'', ''--short'']"] c by simp
  obtain w2 out2 r2 where d: "runHelmCommand env w1 p (pullCommand env p) = (w2, out2, r2)"
    by (cases "runHelmCommand env w1 p (pullCommand env p)")
  have w2: "filter is_Loaded (trace w2) = filter is_Loaded (trace w1)"
    using runHelmCommand_loads [of env w1 p "pullCommand env p"] d by simp
  have "fst (Generate_chart env w p) = w1 \<or> fst (Generate_chart env w p) = w2"
    using c d
    by (cases r; cases r2)
       (auto simp: Generate_chart_def checkHelmVersion_def split: prod.splits option.splits)
  with w1 w2 show ?thesis by auto
qed

lemma cleanup_trace: "trace (cleanup w p) = trace w"
  by (simp add: cleanup_def os_RemoveAll_def)

lemma Generate_values_replace_trace:
  assumes "ValuesInline p \<noteq> []" and "ValuesMerge p = valuesMergeOptionReplace"
  shows "trace (fst (Generate_values env w p)) = trace w"
proof (cases "yaml_Marshal env (ValuesInline p)")
  case (Inl e)
  with assms show ?thesis
    by (simp add: Generate_values_def createNewMergedValuesFile_replace)
next
  case (Inr b)
  with assms writeValuesBytes_trace [of env w p b] show ?thesis
    by (auto simp: Generate_values_def createNewMergedValuesFile_replace split: prod.splits)
qed

text \<open>
  Claim C7. With inline values and the policy \<^verbatim>\<open>replace\<close>, when the values step succeeds
  the file it names holds exactly the serialisation of the inline values, which are left
  as they were; the step adds nothing to the log, it is the same whatever the loader is,
  and the whole of \<^verbatim>\<open>Generate\<close> adds no load to the log.
\<close>

theorem replace_values:
  assumes "ValuesInline p \<noteq> []" and "ValuesMerge p = valuesMergeOptionReplace"
  shows "(\<forall>w' p'. Generate_values env w p = (w', p', None) \<longrightarrow>
            (\<exists>b. yaml_Marshal env (ValuesInline p) = Inr b \<and>
                 files w' (ValuesFile p') = Some b) \<and>
            ValuesInline p' = ValuesInline p) \<and>
         trace (fst (Generate_values env w p)) = trace w \<and>
         Generate_values (env\<lparr>Load := load\<rparr>) w p = Generate_values env w p \<and>
         filter is_Loaded (trace (fst (Generate env w p))) = filter is_Loaded (trace w)"
proof (intro conjI allI impI)
  fix w' p'
  assume g: "Generate_values env w p = (w', p', None)"
  obtain b where m: "yaml_Marshal env (ValuesInline p) = Inr b"
    using assms g
    by (cases "yaml_Marshal env (ValuesInline p)")
       (auto simp: Generate_values_def createNewMergedValuesFile_replace)
  obtain w2 p2 path r where wv: "writeValuesBytes env w p b = (w2, p2, path, r)"
    by (cases "writeValuesBytes env w p b")
  from assms g m wv have eq: "w' = w2" "p' = p2\<lparr>ValuesFile := path\<rparr>" "r = None"
    by (simp_all add: Generate_values_def createNewMergedValuesFile_replace)
  have wf: "files w2 path = Some b" "ValuesInline p2 = ValuesInline p"
    using writeValuesBytes_file [of env w p b w2 p2 path] wv eq(3) by blast+
  have "files w' (ValuesFile p') = Some b"
    unfolding eq using wf(1) by simp
  with m show "\<exists>b. yaml_Marshal env (ValuesInline p) = Inr b \<and>
                 files w' (ValuesFile p') = Some b"
    by blast
  show "ValuesInline p' = ValuesInline p"
    unfolding eq using wf(2) by simp
next
  show "trace (fst (Generate_values env w p)) = trace w"
    using assms by (rule Generate_values_replace_trace)
next
  show "Generate_values (env\<lparr>Load := load\<rparr>) w p = Generate_values env w p"
    using assms
    by (simp add: Generate_values_def createNewMergedValuesFile_replace
        writeValuesBytes_loader cong: sum.case_cong)
next
  obtain w1 r1 where c: "Generate_chart env w p = (w1, r1)"
    by (cases "Generate_chart env w p")
  have w1: "filter is_Loaded (trace w1) = filter is_Loaded (trace w)"
    using Generate_chart_loads [of env w p] c by simp
  obtain w2 p2 r2 where v: "Generate_values env w1 p = (w2, p2, r2)"
    by (cases "Generate_values env w1 p")
  have w2: "trace w2 = trace w1"
    using Generate_values_replace_trace [OF assms, of env w1] v by simp
  obtain w3 out r3 where
    h: "runHelmCommand env w2 p2 (AsHelmArgs env p2 (absChartHome env p2)) = (w3, out, r3)"
    by (cases "runHelmCommand env w2 p2 (AsHelmArgs env p2 (absChartHome env p2))")
  have w3: "filter is_Loaded (trace w3) = filter is_Loaded (trace w2)"
    using runHelmCommand_loads [of env w2 p2 "AsHelmArgs env p2 (absChartHome env p2)"] h
    by simp
  have "trace (fst (Generate env w p)) = trace (fst (Generate_body env w p))"
    by (simp add: Generate_def cleanup_trace split: prod.splits)
  moreover have "fst (Generate_body env w p) = w1 \<or> fst (Generate_body env w p) = w2 \<or>
                 fst (Generate_body env w p) = w3"
    using c v h by (cases r1; cases r2; cases r3) (simp_all add: Generate_body_def)
  ultimately show "filter is_Loaded (trace (fst (Generate env w p))) =
                   filter is_Loaded (trace w)"
    using w1 w2 w3 by auto
qed

subsection \<open>The values file with inline values\<close>

lemma inline_plugin_fields:
  "ChartHome (inline_plugin policy) = ''charts''"
  "ConfigHome (inline_plugin policy) = ''/tmp/kustomize-helm-1/helm''"
  "Name (inline_plugin policy) = ''nginx''" "Version (inline_plugin policy) = []"
  "Repo (inline_plugin policy) = []"
  "ValuesFile (inline_plugin policy) = ''/work/charts/nginx/values.yaml''"
  "ValuesInline (inline_plugin policy) = inline_values"
  "ValuesMerge (inline_plugin policy) = policy"
  "tmpDir (inline_plugin policy) = ''/tmp/kustomize-helm-1''"
  by (simp_all add: inline_plugin_def ready_plugin_fields)

lemma example_writeValuesBytes:
  assumes "tmpDir p = ''/tmp/kustomize-helm-1''" and "Name p = ''nginx''"
  shows "writeValuesBytes example_env w p b =
     (w\<lparr>files := (files w)(''/tmp/kustomize-helm-1/nginx-kustomize-values.yaml'' \<mapsto> b)\<rparr>,
      p, ''/tmp/kustomize-helm-1/nginx-kustomize-values.yaml'', None)"
  using assms
  by (simp add: writeValuesBytes_def establishTmpDir_def os_WriteFile_def example_env_fields
      Join_tmp_values Let_def del: Join.simps)

lemma inline_values_nonempty: "inline_values \<noteq> []"
  by (simp add: inline_values_def)

lemma example_marshal_inline: "example_marshal inline_values = Inr ''replicas: 3;image: nginx;''"
  by (simp add: example_marshal_def inline_values_def)

lemma replace_Generate_values:
  "Generate_values example_env ready_world (inline_plugin ''replace'') =
     (ready_world\<lparr>files := (files ready_world)
        (''/tmp/kustomize-helm-1/nginx-kustomize-values.yaml'' \<mapsto> ''replicas: 3;image: nginx;'')\<rparr>,
      inline_plugin ''replace''
        \<lparr>ValuesFile := ''/tmp/kustomize-helm-1/nginx-kustomize-values.yaml''\<rparr>,
      None)"
  by (simp add: Generate_values_def createNewMergedValuesFile_replace inline_plugin_fields
      valuesMergeOptionReplace_def inline_values_nonempty example_env_fields
      example_marshal_inline example_writeValuesBytes)

theorem replace_values_witness:
  "ValuesInline (inline_plugin ''replace'') \<noteq> [] \<and>
   ValuesMerge (inline_plugin ''replace'') = valuesMergeOptionReplace \<and>
   snd (snd (Generate_values example_env ready_world (inline_plugin ''replace''))) = None \<and>
   yaml_Marshal example_env (ValuesInline (inline_plugin ''replace'')) =
     Inr ''replicas: 3;image: nginx;'' \<and>
   files (fst (Generate_values example_env ready_world (inline_plugin ''replace'')))
     (ValuesFile (fst (snd (Generate_values example_env ready_world
                              (inline_plugin ''replace''))))) =
     Some ''replicas: 3;image: nginx;'' \<and>
   trace (fst (Generate_values example_env ready_world (inline_plugin ''replace''))) = [] \<and>
   filter is_Loaded (trace (fst (Generate example_env ready_world (inline_plugin ''replace'')))) =
     []"
proof -
  have a: "ValuesInline (inline_plugin ''replace'') \<noteq> []"
    by (simp add: inline_plugin_fields inline_values_nonempty)
  have b: "ValuesMerge (inline_plugin ''replace'') = valuesMergeOptionReplace"
    by (simp add: inline_plugin_fields valuesMergeOptionReplace_def)
  have m: "yaml_Marshal example_env (ValuesInline (inline_plugin ''replace'')) =
     Inr ''replicas: 3;image: nginx;''"
    by (simp add: example_env_fields inline_plugin_fields example_marshal_inline)
  have t: "trace ready_world = []" by (simp add: ready_world_fields)
  note r = replace_values [OF a b, of example_env ready_world]
  from r replace_Generate_values m
  have 1: "files (fst (Generate_values example_env ready_world (inline_plugin ''replace'')))
     (ValuesFile (fst (snd (Generate_values example_env ready_world
                              (inline_plugin ''replace''))))) =
     Some ''replicas: 3;image: nginx;''"
    by simp
  from r t have 2: "trace (fst (Generate_values example_env ready_world
                            (inline_plugin ''replace''))) = []"
    by simp
  from r t have 3: "filter is_Loaded (trace (fst (Generate example_env ready_world
                            (inline_plugin ''replace'')))) = []"
    by simp
  from a b m 1 2 3 replace_Generate_values show ?thesis by simp
qed


















subsection \<open>The chart directory\<close>

lemma back_loop_ge: "dotdot \<le> w \<Longrightarrow> dotdot \<le> back_loop buf dotdot w"
proof (induction buf dotdot w rule: back_loop.induct)
  case (1 buf dotdot w)
  show ?case
  proof (cases "w > dotdot \<and> buf ! w \<noteq> Separator")
    case True
    then have "dotdot \<le> w - 1" by linarith
    from "1.IH" [OF True this] True show ?thesis
      by (simp add: back_loop.simps [of buf dotdot w])
  next
    case False
    with "1.prems" show ?thesis by (auto simp: back_loop.simps [of buf dotdot w])
  qed
qed

lemma clean_loop_rooted:
  "rooted \<Longrightarrow> dotdot = Suc 0 \<Longrightarrow> out \<noteq> [] \<Longrightarrow> hd out = Separator \<Longrightarrow>
   clean_loop rooted path out dotdot \<noteq> [] \<and> hd (clean_loop rooted path out dotdot) = Separator"
proof (induction rooted path out dotdot rule: clean_loop.induct)
  case (1 rooted out dotdot)
  then show ?case by simp
next
  case (2 rooted c rest out dotdot)
  note p = "2.prems"
  show ?case
  proof (cases "c = Separator")
    case True
    have eq: "clean_loop rooted (c # rest) out dotdot = clean_loop rooted rest out dotdot"
      by (simp only: clean_loop.simps if_P [OF True])
    from "2.IH"(1) [OF True p] show ?thesis unfolding eq .
  next
    case sep: False
    show ?thesis
    proof (cases "c = CHR ''.'' \<and> (rest = [] \<or> hd rest = Separator)")
      case True
      have eq: "clean_loop rooted (c # rest) out dotdot = clean_loop rooted rest out dotdot"
        by (simp only: clean_loop.simps if_not_P [OF sep] if_P [OF True])
      from "2.IH"(2) [OF sep True p] show ?thesis unfolding eq .
    next
      case dot: False
      show ?thesis
      proof (cases "c = CHR ''.'' \<and> hd rest = CHR ''.'' \<and>
                    (tl rest = [] \<or> hd (tl rest) = Separator)")
        case True
        show ?thesis
        proof (cases "length out > dotdot")
          case bk: True
          let ?n = "back_loop out dotdot (length out - 1)"
          have eq: "clean_loop rooted (c # rest) out dotdot =
                    clean_loop rooted (tl rest) (take ?n out) dotdot"
            by (simp only: clean_loop.simps if_not_P [OF sep] if_not_P [OF dot]
                if_P [OF True] if_P [OF bk])
          have "dotdot \<le> length out - 1" using bk by simp
          then have n: "Suc 0 \<le> ?n" using back_loop_ge [of dotdot "length out - 1" out] p(2)
            by simp
          then have t: "take ?n out \<noteq> []" "hd (take ?n out) = Separator"
            using p(3,4) by (cases out; cases ?n; simp)+
          from "2.IH"(3) [OF sep dot True bk p(1,2) t] show ?thesis unfolding eq .
        next
          case False
          have nn: "\<not> \<not> rooted" using p(1) by simp
          have eq: "clean_loop rooted (c # rest) out dotdot =
                    clean_loop rooted (tl rest) out dotdot"
            by (simp only: clean_loop.simps if_not_P [OF sep] if_not_P [OF dot]
                if_P [OF True] if_not_P [OF False] if_not_P [OF nn])
          from "2.IH"(5) [OF sep dot True False nn p] show ?thesis unfolding eq .
        qed
      next
        case False
        let ?o = "(if rooted \<and> length out \<noteq> 1 \<or> \<not> rooted \<and> length out \<noteq> 0
               then out @ [Separator] else out)
              @ takeWhile (\<lambda>x. x \<noteq> Separator) (c # rest)"
        have eq: "clean_loop rooted (c # rest) out dotdot =
                  clean_loop rooted (dropWhile (\<lambda>x. x \<noteq> Separator) (c # rest)) ?o dotdot"
          by (simp only: clean_loop.simps if_not_P [OF sep] if_not_P [OF dot]
              if_not_P [OF False])
        have o: "?o \<noteq> []" "hd ?o = Separator" using p(3,4) by auto
        from "2.IH"(6) [OF sep dot False p(1,2) o] show ?thesis unfolding eq .
      qed
    qed
  qed
qed

lemma Clean_abs: "IsAbs path \<Longrightarrow> IsAbs (Clean path)"
proof -
  assume a: "IsAbs path"
  then obtain t where path: "path = Separator # t"
    by (cases path) (auto simp: IsAbs_def)
  have "clean_loop True t [Separator] (Suc 0) \<noteq> [] \<and>
        hd (clean_loop True t [Separator] (Suc 0)) = Separator"
    by (rule clean_loop_rooted) simp_all
  then show ?thesis
    unfolding path
    by (cases "clean_loop True t [Separator] (Suc 0)") (auto simp: Clean_def IsAbs_def)
qed

lemma strings_Join_abs: "IsAbs e \<Longrightarrow> IsAbs (strings_Join (e # es) sep)"
  by (cases es; cases e) (auto simp: IsAbs_def)

lemma Join_abs: "IsAbs e \<Longrightarrow> IsAbs (Join (e # es))"
proof -
  assume a: "IsAbs e"
  then have "e \<noteq> []" by (auto simp: IsAbs_def)
  then have "Join (e # es) = Clean (strings_Join (e # es) [Separator])"
    by (simp add: Join.simps)
  with Clean_abs [OF strings_Join_abs [OF a]] show ?thesis by simp
qed

lemma absChartHome_chartHome:
  "absChartHome env p =
     (if Version p \<noteq> [] then Join [chartHome env p, Name p @ ''-'' @ Version p]
      else chartHome env p)"
  by (simp add: absChartHome_def chartHome_def Let_def)

lemma chartHome_abs: "IsAbs (ChartHome p) \<or> IsAbs (Root env) \<Longrightarrow> IsAbs (chartHome env p)"
  by (auto simp: chartHome_def Join_abs)

lemma absChartHome_abs:
  "IsAbs (ChartHome p) \<or> IsAbs (Root env) \<Longrightarrow> IsAbs (absChartHome env p)"
  using chartHome_abs [of p env] by (simp add: absChartHome_chartHome Join_abs)

lemma establishTmpDir_frame:
  "ChartHome (fst (snd (establishTmpDir env w p))) = ChartHome p \<and>
   Name (fst (snd (establishTmpDir env w p))) = Name p \<and>
   Version (fst (snd (establishTmpDir env w p))) = Version p"
  by (simp add: establishTmpDir_def split: prod.splits sum.splits)

lemma writeValuesBytes_frame:
  "ChartHome (fst (snd (writeValuesBytes env w p b))) = ChartHome p \<and>
   Name (fst (snd (writeValuesBytes env w p b))) = Name p \<and>
   Version (fst (snd (writeValuesBytes env w p b))) = Version p"
proof -
  obtain w1 p1 r1 where e: "establishTmpDir env w p = (w1, p1, r1)"
    by (cases "establishTmpDir env w p")
  with establishTmpDir_frame [of env w p]
  have "ChartHome p1 = ChartHome p \<and> Name p1 = Name p \<and> Version p1 = Version p" by simp
  with e show ?thesis
    by (cases r1) (simp_all add: writeValuesBytes_def Let_def split: prod.splits option.splits)
qed

lemma replaceValuesInline_frame:
  "ChartHome (fst (snd (replaceValuesInline env w p))) = ChartHome p \<and>
   Name (fst (snd (replaceValuesInline env w p))) = Name p \<and>
   Version (fst (snd (replaceValuesInline env w p))) = Version p"
  by (simp add: replaceValuesInline_def Loader_Load_def split: sum.splits)

lemma createNewMergedValuesFile_frame:
  "ChartHome (fst (snd (createNewMergedValuesFile env w p))) = ChartHome p \<and>
   Name (fst (snd (createNewMergedValuesFile env w p))) = Name p \<and>
   Version (fst (snd (createNewMergedValuesFile env w p))) = Version p"
proof -
  obtain w1 p1 r1 where r: "(if ValuesMerge p = valuesMergeOptionMerge \<or>
               ValuesMerge p = valuesMergeOptionOverride
            then replaceValuesInline env w p
            else (w, p, None)) = (w1, p1, r1)"
    by (cases "(if ValuesMerge p = valuesMergeOptionMerge \<or>
               ValuesMerge p = valuesMergeOptionOverride
            then replaceValuesInline env w p
            else (w, p, None))")
  have f: "ChartHome p1 = ChartHome p \<and> Name p1 = Name p \<and> Version p1 = Version p"
    using r replaceValuesInline_frame [of env w p] by (auto split: if_splits)
  show ?thesis
    unfolding createNewMergedValuesFile_def r
    using f
    by (cases r1; cases "yaml_Marshal env (ValuesInline p1)")
       (simp_all add: writeValuesBytes_frame)
qed

lemma copyValuesFile_frame:
  "ChartHome (fst (snd (copyValuesFile env w p))) = ChartHome p \<and>
   Name (fst (snd (copyValuesFile env w p))) = Name p \<and>
   Version (fst (snd (copyValuesFile env w p))) = Version p"
  by (simp add: copyValuesFile_def Loader_Load_def writeValuesBytes_frame split: sum.splits)

lemma Generate_values_absChartHome:
  assumes "Generate_values env w p = (w', p', r)"
  shows "absChartHome env p' = absChartHome env p"
proof -
  have "ChartHome p' = ChartHome p \<and> Name p' = Name p \<and> Version p' = Version p"
    using assms createNewMergedValuesFile_frame [of env w p] copyValuesFile_frame [of env w p]
    by (auto simp: Generate_values_def split: prod.splits if_splits)
  then show ?thesis by (simp add: absChartHome_def Let_def)
qed

lemma runHelmCommand_trace:
  assumes "GeneralConfig env = Some hc"
  shows "\<exists>vars. trace (fst (runHelmCommand env w p args)) =
                  trace w @ [Ran (hc_Command hc) args vars]"
  using assms by (simp add: runHelmCommand_def Let_def split: prod.splits)

text \<open>
  Claim C3, as amended. The directory that is probed for a local copy of the chart is the
  chart's name joined to the directory handed to the pull command and to the renderer:
  with no version that directory is the chart home and the probed path is
  \<^verbatim>\<open><home>/<name>\<close>; with a version it is \<^verbatim>\<open><home>/<name>-<version>\<close> and the probed path
  is \<^verbatim>\<open><home>/<name>-<version>/<name>\<close>. The chart home is the configured one when that is
  absolute and is joined to the loader's root otherwise, so the three paths are absolute
  when the configured home or the loader's root is. The pull command unpacks into that
  directory, and a run that reaches the renderer hands the same directory to it.
\<close>

theorem chart_directory:
  "(\<forall>d. os_Stat w (Join [absChartHome env p, Name p]) = Inr d \<longrightarrow>
        chartExistsLocally env w p = (Join [absChartHome env p, Name p], d)) \<and>
   (Version p = [] \<longrightarrow>
      absChartHome env p = chartHome env p \<and>
      Join [absChartHome env p, Name p] = Join [chartHome env p, Name p]) \<and>
   (Version p \<noteq> [] \<longrightarrow>
      absChartHome env p = Join [chartHome env p, Name p @ ''-'' @ Version p] \<and>
      Join [absChartHome env p, Name p] =
        Join [Join [chartHome env p, Name p @ ''-'' @ Version p], Name p]) \<and>
   (IsAbs (ChartHome p) \<or> IsAbs (Root env) \<longrightarrow>
      IsAbs (chartHome env p) \<and> IsAbs (absChartHome env p) \<and>
      IsAbs (Join [absChartHome env p, Name p])) \<and>
   take 4 (pullCommand env p) = [''pull'', ''--untar'', ''--untardir'', absChartHome env p] \<and>
   (\<forall>w1 w2 p2 hc.
      Generate_chart env w p = (w1, None) \<and> Generate_values env w1 p = (w2, p2, None) \<and>
      GeneralConfig env = Some hc \<longrightarrow>
      (\<exists>vars. Ran (hc_Command hc) (AsHelmArgs env p2 (absChartHome env p)) vars
                \<in> set (trace (fst (Generate env w p)))))"
proof (intro conjI allI impI)
  fix d
  assume "os_Stat w (Join [absChartHome env p, Name p]) = Inr d"
  then show "chartExistsLocally env w p = (Join [absChartHome env p, Name p], d)"
    by (simp add: chartExistsLocally_def Let_def)
next
  assume v: "Version p = []"
  then show "absChartHome env p = chartHome env p"
    by (simp add: absChartHome_chartHome)
  then show "Join [absChartHome env p, Name p] = Join [chartHome env p, Name p]"
    by simp
next
  assume v: "Version p \<noteq> []"
  then show "absChartHome env p = Join [chartHome env p, Name p @ ''-'' @ Version p]"
    by (simp add: absChartHome_chartHome)
  then show "Join [absChartHome env p, Name p] =
        Join [Join [chartHome env p, Name p @ ''-'' @ Version p], Name p]"
    by simp
next
  assume a: "IsAbs (ChartHome p) \<or> IsAbs (Root env)"
  then show "IsAbs (chartHome env p)" by (rule chartHome_abs)
  from a show h: "IsAbs (absChartHome env p)" by (rule absChartHome_abs)
  then show "IsAbs (Join [absChartHome env p, Name p])" by (rule Join_abs)
next
  show "take 4 (pullCommand env p) = [''pull'', ''--untar'', ''--untardir'', absChartHome env p]"
    by (simp add: pullCommand_def Let_def)
next
  fix w1 w2 p2 hc
  assume h: "Generate_chart env w p = (w1, None) \<and> Generate_values env w1 p = (w2, p2, None) \<and>
      GeneralConfig env = Some hc"
  then have a: "absChartHome env p2 = absChartHome env p"
    using Generate_values_absChartHome by blast
  let ?args = "AsHelmArgs env p2 (absChartHome env p)"
  obtain w3 out r where run: "runHelmCommand env w2 p2 ?args = (w3, out, r)"
    by (cases "runHelmCommand env w2 p2 ?args")
  from h runHelmCommand_trace [of env hc w2 p2 ?args] run
  obtain vars where t: "trace w3 = trace w2 @ [Ran (hc_Command hc) ?args vars]"
    by auto
  have "fst (Generate_body env w p) = w3"
    using h run a by (cases r) (simp_all add: Generate_body_def)
  then have "trace (fst (Generate env w p)) = trace w3"
    by (cases "Generate_body env w p") (simp add: Generate_def cleanup_trace)
  with t show "\<exists>vars. Ran (hc_Command hc) ?args vars \<in> set (trace (fst (Generate env w p)))"
    by auto
qed

lemma versioned_plugin_fields:
  "ChartHome versioned_plugin = ''charts''" "Name versioned_plugin = ''nginx''"
  "Version versioned_plugin = ''1.2.3''"
  by (simp_all add: versioned_plugin_def ready_plugin_fields)

lemma Join_versioned:
  "Join [''/work/charts'', ''nginx-1.2.3''] = ''/work/charts/nginx-1.2.3''"
  "Join [''/work/charts/nginx-1.2.3'', ''nginx''] = ''/work/charts/nginx-1.2.3/nginx''"
  by (simp_all add: Join.simps Clean_def Separator_def)

lemma versioned_chartHome: "chartHome example_env versioned_plugin = ''/work/charts''"
  by (simp add: chartHome_def versioned_plugin_fields example_env_fields IsAbs_def
      Separator_def Join_work_charts)

lemma versioned_absChartHome:
  "absChartHome example_env versioned_plugin = ''/work/charts/nginx-1.2.3''"
  by (simp add: absChartHome_chartHome versioned_chartHome versioned_plugin_fields
      Join_versioned)

lemma versioned_stat:
  "os_Stat versioned_world ''/work/charts/nginx-1.2.3/nginx'' = Inr True"
  by (simp add: os_Stat_def versioned_world_def)

text \<open>
  The theorem at the chart \<^verbatim>\<open>nginx\<close> below the root \<^verbatim>\<open>/work\<close>, with the version
  \<^verbatim>\<open>1.2.3\<close> and with no version.
\<close>

theorem chart_directory_witness:
  "Version versioned_plugin \<noteq> [] \<and> IsAbs (Root example_env) \<and>
   os_Stat versioned_world
     (Join [absChartHome example_env versioned_plugin, Name versioned_plugin]) = Inr True \<and>
   chartExistsLocally example_env versioned_world versioned_plugin =
     (''/work/charts/nginx-1.2.3/nginx'', True) \<and>
   IsAbs (chartHome example_env versioned_plugin) \<and>
   Join [Join [chartHome example_env versioned_plugin,
               Name versioned_plugin @ ''-'' @ Version versioned_plugin],
         Name versioned_plugin] = ''/work/charts/nginx-1.2.3/nginx'' \<and>
   Version ready_plugin = [] \<and>
   os_Stat ready_world (Join [absChartHome example_env ready_plugin, Name ready_plugin]) =
     Inr True \<and>
   chartExistsLocally example_env ready_world ready_plugin = (''/work/charts/nginx'', True) \<and>
   Join [chartHome example_env ready_plugin, Name ready_plugin] = ''/work/charts/nginx'' \<and>
   Generate_chart example_env ready_world ready_plugin =
     (ready_world\<lparr>trace := [Ran ''helm'' [''version'', ''-c'', ''--short''] helm_vars]\<rparr>,
      None) \<and>
   (\<exists>w2. Generate_values example_env
      (ready_world\<lparr>trace := [Ran ''helm'' [''version'', ''-c'', ''--short''] helm_vars]\<rparr>)
      ready_plugin =
     (w2, ready_plugin\<lparr>ValuesFile := ''/tmp/kustomize-helm-1/nginx-kustomize-values.yaml''\<rparr>,
      None)) \<and>
   (\<exists>vars. Ran ''helm''
      (AsHelmArgs example_env
         (ready_plugin\<lparr>ValuesFile := ''/tmp/kustomize-helm-1/nginx-kustomize-values.yaml''\<rparr>)
         ''/work/charts'') vars
      \<in> set (trace (fst (Generate example_env ready_world ready_plugin))))"
proof -
  have e: "example_env = rendering ''kind: ConfigMap'' Inr"
    by (simp add: rendering_def example_env_def)
  have v: "Version versioned_plugin \<noteq> []" by (simp add: versioned_plugin_fields)
  have r: "IsAbs (Root example_env)"
    by (simp add: example_env_fields IsAbs_def Separator_def)
  have jv: "Join [absChartHome example_env versioned_plugin, Name versioned_plugin] =
            ''/work/charts/nginx-1.2.3/nginx''"
    by (simp add: versioned_absChartHome versioned_plugin_fields Join_versioned)
  have sv: "os_Stat versioned_world
     (Join [absChartHome example_env versioned_plugin, Name versioned_plugin]) = Inr True"
    unfolding jv by (rule versioned_stat)
  have n: "Version ready_plugin = []" by (simp add: ready_plugin_fields)
  have jr: "Join [absChartHome example_env ready_plugin, Name ready_plugin] =
            ''/work/charts/nginx''"
    unfolding e by (simp add: ready_absChartHome ready_plugin_fields Join_charts_nginx)
  have sr: "os_Stat ready_world
     (Join [absChartHome example_env ready_plugin, Name ready_plugin]) = Inr True"
    unfolding jr by (simp add: os_Stat_def ready_world_fields)
  note tv = chart_directory [of versioned_world example_env versioned_plugin]
  note tr = chart_directory [of ready_world example_env ready_plugin]
  have 1: "chartExistsLocally example_env versioned_world versioned_plugin =
     (''/work/charts/nginx-1.2.3/nginx'', True)"
    using tv [THEN conjunct1, rule_format, OF sv] jv by simp
  have 2: "IsAbs (chartHome example_env versioned_plugin)"
    using tv r by blast
  have 3: "Join [Join [chartHome example_env versioned_plugin,
               Name versioned_plugin @ ''-'' @ Version versioned_plugin],
         Name versioned_plugin] = ''/work/charts/nginx-1.2.3/nginx''"
    using tv v jv by simp
  have 4: "chartExistsLocally example_env ready_world ready_plugin =
     (''/work/charts/nginx'', True)"
    using tr [THEN conjunct1, rule_format, OF sr] jr by simp
  have 5: "Join [chartHome example_env ready_plugin, Name ready_plugin] = ''/work/charts/nginx''"
    using tr n jr by simp
  let ?w1 = "ready_world\<lparr>trace := [Ran ''helm'' [''version'', ''-c'', ''--short''] helm_vars]\<rparr>"
  let ?p2 = "ready_plugin\<lparr>ValuesFile := ''/tmp/kustomize-helm-1/nginx-kustomize-values.yaml''\<rparr>"
  have gc: "Generate_chart example_env ready_world ready_plugin = (?w1, None)"
    unfolding e by (rule ready_Generate_chart)
  have f: "files ?w1 ''/work/charts/nginx/values.yaml'' = Some ''{replicas: 1, port: 80}''"
    by (simp add: ready_world_fields)
  have gv: "Generate_values example_env ?w1 ready_plugin =
     (?w1\<lparr>trace := trace ?w1 @ [Loaded ''/work/charts/nginx/values.yaml''],
        files := (files ?w1)(''/tmp/kustomize-helm-1/nginx-kustomize-values.yaml'' \<mapsto>
                   ''{replicas: 1, port: 80}'')\<rparr>, ?p2, None)"
    unfolding e by (rule ready_Generate_values [OF f])
  have hc: "GeneralConfig example_env =
     Some \<lparr>hc_Enabled = True, hc_Command = ''helm'', hc_ApiVersions = [],
           hc_KubeVersion = [], hc_Debug = False\<rparr>"
    unfolding e by (rule rendering_fields)
  have ah: "absChartHome example_env ready_plugin = ''/work/charts''"
    unfolding e by (rule ready_absChartHome)
  have 6: "\<exists>vars. Ran ''helm'' (AsHelmArgs example_env ?p2 ''/work/charts'') vars
      \<in> set (trace (fst (Generate example_env ready_world ready_plugin)))"
    using tr [THEN conjunct2, THEN conjunct2, THEN conjunct2, THEN conjunct2, THEN conjunct2,
        rule_format, OF conjI [OF gc conjI [OF gv hc]]] ah
    by simp
  from gv have 7: "\<exists>w2. Generate_values example_env ?w1 ready_plugin = (w2, ?p2, None)"
    by blast
  from v r sv 1 2 3 n sr 4 5 gc 7 6 show ?thesis by blast
qed

text \<open>
  With the version \<^verbatim>\<open>1.2.3\<close> the probed path is not \<^verbatim>\<open>/work/charts/nginx-1.2.3\<close>: it is
  \<^verbatim>\<open>/work/charts/nginx-1.2.3/nginx\<close>, and a world that holds only the former directory has
  no local chart.
\<close>

theorem chart_directory_counterexample:
  "Version versioned_plugin = ''1.2.3'' \<and>
   chartHome example_env versioned_plugin = ''/work/charts'' \<and>
   Join [chartHome example_env versioned_plugin,
         Name versioned_plugin @ ''-'' @ Version versioned_plugin] =
     ''/work/charts/nginx-1.2.3'' \<and>
   chartExistsLocally example_env versioned_world versioned_plugin =
     (''/work/charts/nginx-1.2.3/nginx'', True) \<and>
   ''/work/charts/nginx-1.2.3'' \<in> dirs (versioned_world\<lparr>dirs := {''/work/charts/nginx-1.2.3''}\<rparr>) \<and>
   chartExistsLocally example_env (versioned_world\<lparr>dirs := {''/work/charts/nginx-1.2.3''}\<rparr>)
     versioned_plugin = ([], False)"
proof -
  have 1: "chartExistsLocally example_env versioned_world versioned_plugin =
     (''/work/charts/nginx-1.2.3/nginx'', True)"
    by (simp add: chartExistsLocally_def versioned_absChartHome versioned_plugin_fields
        Join_versioned versioned_stat)
  have 2: "chartExistsLocally example_env (versioned_world\<lparr>dirs := {''/work/charts/nginx-1.2.3''}\<rparr>)
     versioned_plugin = ([], False)"
    by (simp add: chartExistsLocally_def versioned_absChartHome versioned_plugin_fields
        Join_versioned os_Stat_def versioned_world_def ready_world_fields)
  from 1 2 show ?thesis
    by (simp add: versioned_plugin_fields versioned_chartHome Join_versioned)
qed

subsection \<open>The precedence of the settings\<close>

lemma errIfIllegalValuesMerge_settings:
  "KubeVersion (fst (errIfIllegalValuesMerge p)) = KubeVersion p"
  "ApiVersions (fst (errIfIllegalValuesMerge p)) = ApiVersions p"
  "Debug (fst (errIfIllegalValuesMerge p)) = Debug p"
  by (simp_all add: errIfIllegalValuesMerge_def)

lemma establishTmpDir_settings:
  "KubeVersion (fst (snd (establishTmpDir env w p))) = KubeVersion p"
  "ApiVersions (fst (snd (establishTmpDir env w p))) = ApiVersions p"
  "Debug (fst (snd (establishTmpDir env w p))) = Debug p"
  by (simp_all add: establishTmpDir_def split: prod.splits sum.splits)

lemma validateArgs_settings:
  "KubeVersion (fst (snd (validateArgs env w p))) = KubeVersion p \<and>
   ApiVersions (fst (snd (validateArgs env w p))) = ApiVersions p \<and>
   Debug (fst (snd (validateArgs env w p))) = Debug p"
proof (cases "Name p = []")
  case True
  then show ?thesis by (simp add: validateArgs_def)
next
  case False
  define p1 where "p1 = (if ChartHome p = [] then p\<lparr>ChartHome := HelmDefaultHome\<rparr> else p)"
  define p2 where "p2 = (if ValuesFile p1 = []
                  then p1\<lparr>ValuesFile := Join [absChartHome env p1, Name p1, ''values.yaml'']\<rparr>
                  else p1)"
  note u = validateArgs_unfold [OF False p1_def p2_def, of w]
  obtain w1 fs r where l: "additionalValuesFiles_loop env w [] (AdditionalValuesFiles p2) = (w1, fs, r)"
    by (cases "additionalValuesFiles_loop env w [] (AdditionalValuesFiles p2)")
  define q where "q = p2\<lparr>AdditionalValuesFiles := fs\<rparr>"
  have q: "KubeVersion q = KubeVersion p" "ApiVersions q = ApiVersions p" "Debug q = Debug p"
    by (simp_all add: q_def p2_def p1_def)
  obtain p3 r3 where e: "errIfIllegalValuesMerge q = (p3, r3)"
    by (cases "errIfIllegalValuesMerge q")
  have p3: "KubeVersion p3 = KubeVersion p" "ApiVersions p3 = ApiVersions p" "Debug p3 = Debug p"
    using errIfIllegalValuesMerge_settings [of q] e q by simp_all
  obtain w2 p4 r4 where t: "establishTmpDir env w1 p3 = (w2, p4, r4)"
    by (cases "establishTmpDir env w1 p3")
  have p4: "KubeVersion p4 = KubeVersion p" "ApiVersions p4 = ApiVersions p" "Debug p4 = Debug p"
    using establishTmpDir_settings [of env w1 p3] t p3 by simp_all
  have "fst (snd (validateArgs env w p)) = q \<or> fst (snd (validateArgs env w p)) = p3 \<or>
        fst (snd (validateArgs env w p)) = p4 \<or>
        fst (snd (validateArgs env w p)) = p4\<lparr>ConfigHome := Join [tmpDir p4, ''helm'']\<rparr>"
    using e by (cases r; cases r3; cases r4) (simp_all add: u l t q_def)
  with q p3 p4 show ?thesis by auto
qed

text \<open>
  Claim C1. \<^verbatim>\<open>Config\<close> assigns the process-level settings to the receiver and decodes the
  payload into the receiver afterwards: whenever the payload is decoded, a field that the
  payload supplies has the payload's value in the resulting parameter set, whatever the
  process-level setting is, and the process-level value stands only for a field that the
  payload leaves out. This is the opposite of the precedence that the claim states and
  that the comment \<^verbatim>\<open>CLI args takes precedence\<close> of the source announces.
\<close>

theorem config_precedence:
  assumes "GeneralConfig env = Some hc" and "hc_Enabled hc" and "hc_Command hc \<noteq> []"
    and "yaml_Decode env config = Inr pl"
  shows "KubeVersion (fst (snd (Config env w config p))) =
           (case pl_kubeVersion pl of
              Some v \<Rightarrow> v
            | None \<Rightarrow> if hc_KubeVersion hc \<noteq> [] then hc_KubeVersion hc else KubeVersion p) \<and>
         ApiVersions (fst (snd (Config env w config p))) =
           (case pl_apiVersions pl of
              Some v \<Rightarrow> v
            | None \<Rightarrow> if hc_ApiVersions hc \<noteq> [] then hc_ApiVersions hc else ApiVersions p) \<and>
         Debug (fst (snd (Config env w config p))) =
           (case pl_debug pl of
              Some v \<Rightarrow> v
            | None \<Rightarrow> if hc_Debug hc then True else Debug p)"
proof -
  define p1 where "p1 = (if hc_KubeVersion hc \<noteq> [] then p\<lparr>KubeVersion := hc_KubeVersion hc\<rparr>
                         else p)"
  define p2 where "p2 = (if length (hc_ApiVersions hc) \<noteq> 0
                         then p1\<lparr>ApiVersions := hc_ApiVersions hc\<rparr> else p1)"
  define p3 where "p3 = (if hc_Debug hc then p2\<lparr>Debug := hc_Debug hc\<rparr> else p2)"
  note u = Config_unfold [OF assms(1,2,3) p1_def p2_def p3_def, of w config]
  have c: "Config env w config p = validateArgs env w (Unmarshal pl p3)"
    by (simp add: u yaml_Unmarshal_def assms(4))
  have k: "KubeVersion p3 = (if hc_KubeVersion hc \<noteq> [] then hc_KubeVersion hc else KubeVersion p)"
    by (simp add: p3_def p2_def p1_def)
  have a: "ApiVersions p3 = (if hc_ApiVersions hc \<noteq> [] then hc_ApiVersions hc else ApiVersions p)"
    by (simp add: p3_def p2_def p1_def)
  have d: "Debug p3 = (if hc_Debug hc then True else Debug p)"
    by (simp add: p3_def p2_def p1_def)
  note s = validateArgs_settings [of env w "Unmarshal pl p3"]
  have 1: "KubeVersion (fst (snd (Config env w config p))) =
           (case pl_kubeVersion pl of
              Some v \<Rightarrow> v
            | None \<Rightarrow> if hc_KubeVersion hc \<noteq> [] then hc_KubeVersion hc else KubeVersion p)"
    unfolding c using s k by (simp add: Unmarshal_def split: option.splits)
  have 2: "ApiVersions (fst (snd (Config env w config p))) =
           (case pl_apiVersions pl of
              Some v \<Rightarrow> v
            | None \<Rightarrow> if hc_ApiVersions hc \<noteq> [] then hc_ApiVersions hc else ApiVersions p)"
    unfolding c using s a by (simp add: Unmarshal_def split: option.splits)
  have 3: "Debug (fst (snd (Config env w config p))) =
           (case pl_debug pl of
              Some v \<Rightarrow> v
            | None \<Rightarrow> if hc_Debug hc then True else Debug p)"
    unfolding c using s d by (simp add: Unmarshal_def split: option.splits)
  from 1 2 3 show ?thesis by blast
qed

lemma cli_env_fields:
  "GeneralConfig cli_env =
     Some \<lparr>hc_Enabled = True, hc_Command = ''helm'', hc_ApiVersions = [''policy/v1''],
           hc_KubeVersion = ''v1.27.0'', hc_Debug = True\<rparr>"
  "Root cli_env = ''/work''"
  "yaml_Decode cli_env = example_decode"
  "MkdirTemp cli_env w = Inr ''/tmp/kustomize-helm-1''"
  by (simp_all add: cli_env_def example_env_def)

lemma cli_decode:
  "example_decode cli_config =
     Inr (empty_payload\<lparr>pl_name := Some ''nginx'', pl_kubeVersion := Some ''v1.20.0'',
            pl_apiVersions := Some [''batch/v1''], pl_debug := Some False\<rparr>)"
  by (simp add: example_decode_def cli_config_def)

text \<open>
  The theorem at a payload that sets the three fields, under process-level settings that
  are all non-empty: the payload's values stand.
\<close>

theorem config_precedence_witness:
  "GeneralConfig cli_env =
     Some \<lparr>hc_Enabled = True, hc_Command = ''helm'', hc_ApiVersions = [''policy/v1''],
           hc_KubeVersion = ''v1.27.0'', hc_Debug = True\<rparr> \<and>
   yaml_Decode cli_env cli_config =
     Inr (empty_payload\<lparr>pl_name := Some ''nginx'', pl_kubeVersion := Some ''v1.20.0'',
            pl_apiVersions := Some [''batch/v1''], pl_debug := Some False\<rparr>) \<and>
   KubeVersion (fst (snd (Config cli_env example_world cli_config KustomizePlugin))) = ''v1.20.0'' \<and>
   ApiVersions (fst (snd (Config cli_env example_world cli_config KustomizePlugin))) =
     [''batch/v1''] \<and>
   Debug (fst (snd (Config cli_env example_world cli_config KustomizePlugin))) = False"
proof -
  have g: "GeneralConfig cli_env =
     Some \<lparr>hc_Enabled = True, hc_Command = ''helm'', hc_ApiVersions = [''policy/v1''],
           hc_KubeVersion = ''v1.27.0'', hc_Debug = True\<rparr>"
    by (rule cli_env_fields)
  have d: "yaml_Decode cli_env cli_config =
     Inr (empty_payload\<lparr>pl_name := Some ''nginx'', pl_kubeVersion := Some ''v1.20.0'',
            pl_apiVersions := Some [''batch/v1''], pl_debug := Some False\<rparr>)"
    by (simp add: cli_env_fields cli_decode)
  note t = config_precedence [OF g _ _ d, of example_world KustomizePlugin, simplified]
  from g d t show ?thesis by (simp add: empty_payload_def)
qed

text \<open>
  The run of \<^verbatim>\<open>Config\<close> on that input, evaluated: it succeeds, and none of the three fields
  of the resulting parameter set has the process-level value.
\<close>

theorem config_precedence_counterexample:
  "Config cli_env example_world cli_config KustomizePlugin =
     (example_world\<lparr>dirs := insert ''/tmp/kustomize-helm-1'' (dirs example_world)\<rparr>,
      KustomizePlugin\<lparr>Name := ''nginx'', KubeVersion := ''v1.20.0'',
        ApiVersions := [''batch/v1''], Debug := False, ChartHome := ''charts'',
        ValuesFile := ''/work/charts/nginx/values.yaml'', ValuesMerge := ''override'',
        tmpDir := ''/tmp/kustomize-helm-1'', ConfigHome := ''/tmp/kustomize-helm-1/helm''\<rparr>,
      None) \<and>
   hc_KubeVersion (the (GeneralConfig cli_env)) = ''v1.27.0'' \<and>
   hc_ApiVersions (the (GeneralConfig cli_env)) = [''policy/v1''] \<and>
   hc_Debug (the (GeneralConfig cli_env)) = True"
proof -
  have u: "Config cli_env example_world cli_config KustomizePlugin =
     validateArgs cli_env example_world
       (KustomizePlugin\<lparr>Name := ''nginx'', KubeVersion := ''v1.20.0'',
          ApiVersions := [''batch/v1''], Debug := False\<rparr>)"
    by (simp add: Config_def cli_env_fields yaml_Unmarshal_def cli_decode Unmarshal_def
        empty_payload_def KustomizePlugin_def)
  have v: "validateArgs cli_env example_world
       (KustomizePlugin\<lparr>Name := ''nginx'', KubeVersion := ''v1.20.0'',
          ApiVersions := [''batch/v1''], Debug := False\<rparr>) =
     (example_world\<lparr>dirs := insert ''/tmp/kustomize-helm-1'' (dirs example_world)\<rparr>,
      KustomizePlugin\<lparr>Name := ''nginx'', KubeVersion := ''v1.20.0'',
        ApiVersions := [''batch/v1''], Debug := False, ChartHome := ''charts'',
        ValuesFile := ''/work/charts/nginx/values.yaml'', ValuesMerge := ''override'',
        tmpDir := ''/tmp/kustomize-helm-1'', ConfigHome := ''/tmp/kustomize-helm-1/helm''\<rparr>,
      None)"
    by (simp add: validateArgs_def cli_env_fields KustomizePlugin_def
        example_world_def HelmDefaultHome_def absChartHome_def IsAbs_def
        Join_work_charts Join_values_yaml Join_tmp_helm
        Separator_def errIfIllegalValuesMerge_def valuesMergeOptionOverride_def
        establishTmpDir_def os_MkdirTemp_def)
  show ?thesis by (simp add: u v cli_env_fields)
qed

end
